theory Spec2Isabelle
  imports Complex_Main
begin

section \<open>Exceptions\<close>

text \<open>
  Every exception the modelled code can raise is a value of one datatype; a function that
  can raise returns \<open>error + 'a\<close>, with \<open>Inl\<close> for the exception.
  \<open>BudgetExceededError\<close> carries its \<open>limit_type\<close> string (the message text is
  not modelled). \<open>APIError\<close> stands for whatever the cloud client raises;
  \<open>JSONDecodeError\<close> is a \<open>ValueError\<close> in Python, and every handler of the model that
  catches one catches the other.
\<close>

datatype error =
    BudgetExceededError string
  | CircuitOpenError
  | ValueError
  | JSONDecodeError
  | YAMLError
  | TypeError
  | AttributeError
  | FileNotFoundError
  | APIError

section \<open>The shared counter store\<close>

text \<open>
  The Redis primitives used by \<open>app/services/budget.py\<close>. A key holds a value and an
  optional expiry deadline; a key is live up to and including its deadline, and an expired
  key reads as absent. Counters are integers (they are written by INCR and INCRBY only).
  The hash at \<open>circuit:TENANT\<close> is written through three fields only, so it is a record
  of three optional fields; \<open>str(time.time())\<close> and \<open>float(...)\<close> round-trip, so
  \<open>opened_at\<close> holds the time itself. Time is a real number of seconds, and the
  workers and the store read one clock.
\<close>

record circuit_hash =
  failures :: "int option"
  state :: "string option"
  opened_at :: "real option"

definition empty_hash :: circuit_hash where
  "empty_hash = \<lparr>failures = None, state = None, opened_at = None\<rparr>"

record redis =
  strings :: "string \<Rightarrow> (int \<times> real option) option"
  hashes :: "string \<Rightarrow> (circuit_hash \<times> real option) option"

fun live :: "real \<Rightarrow> ('v \<times> real option) option \<Rightarrow> ('v \<times> real option) option" where
  "live t None = None"
| "live t (Some (v, None)) = Some (v, None)"
| "live t (Some (v, Some d)) = (if t \<le> d then Some (v, Some d) else None)"

definition redis_get :: "redis \<Rightarrow> string \<Rightarrow> real \<Rightarrow> int option" where
  "redis_get r k t = map_option fst (live t (strings r k))"

definition redis_incrby :: "redis \<Rightarrow> string \<Rightarrow> int \<Rightarrow> real \<Rightarrow> redis" where
  "redis_incrby r k n t =
     (case live t (strings r k) of
        None \<Rightarrow> r\<lparr>strings := (strings r)(k := Some (n, None))\<rparr>
      | Some (v, d) \<Rightarrow> r\<lparr>strings := (strings r)(k := Some (v + n, d))\<rparr>)"

definition redis_expire :: "redis \<Rightarrow> string \<Rightarrow> real \<Rightarrow> real \<Rightarrow> redis" where
  "redis_expire r k secs t =
     (let r1 = (case live t (strings r k) of
                  None \<Rightarrow> r
                | Some (v, d) \<Rightarrow> r\<lparr>strings := (strings r)(k := Some (v, Some (t + secs)))\<rparr>)
      in (case live t (hashes r1 k) of
            None \<Rightarrow> r1
          | Some (h, d) \<Rightarrow> r1\<lparr>hashes := (hashes r1)(k := Some (h, Some (t + secs)))\<rparr>))"

definition redis_hgetall :: "redis \<Rightarrow> string \<Rightarrow> real \<Rightarrow> circuit_hash" where
  "redis_hgetall r k t = (case live t (hashes r k) of None \<Rightarrow> empty_hash | Some (h, d) \<Rightarrow> h)"

definition redis_hincrby_failures :: "redis \<Rightarrow> string \<Rightarrow> int \<Rightarrow> real \<Rightarrow> int \<times> redis" where
  "redis_hincrby_failures r k n t =
     (case live t (hashes r k) of
        None \<Rightarrow> (n, r\<lparr>hashes := (hashes r)(k := Some (empty_hash\<lparr>failures := Some n\<rparr>, None))\<rparr>)
      | Some (h, d) \<Rightarrow>
          (let v = (case failures h of None \<Rightarrow> 0 | Some c \<Rightarrow> c) + n
           in (v, r\<lparr>hashes := (hashes r)(k := Some (h\<lparr>failures := Some v\<rparr>, d))\<rparr>)))"

definition redis_hset :: "redis \<Rightarrow> string \<Rightarrow> (circuit_hash \<Rightarrow> circuit_hash) \<Rightarrow> real \<Rightarrow> redis" where
  "redis_hset r k upd t =
     (case live t (hashes r k) of
        None \<Rightarrow> r\<lparr>hashes := (hashes r)(k := Some (upd empty_hash, None))\<rparr>
      | Some (h, d) \<Rightarrow> r\<lparr>hashes := (hashes r)(k := Some (upd h, d))\<rparr>)"

definition redis_delete :: "redis \<Rightarrow> string \<Rightarrow> redis" where
  "redis_delete r k = r\<lparr>strings := (strings r)(k := None), hashes := (hashes r)(k := None)\<rparr>"

definition empty_redis :: redis where
  "empty_redis = \<lparr>strings = (\<lambda>k. None), hashes = (\<lambda>k. None)\<rparr>"

section \<open>BudgetEnforcer\<close>

text \<open>
  What a call reads from the process clock: \<open>time.time()\<close>,
  \<open>date.today().isoformat()\<close> and \<open>datetime.utcnow().strftime("%Y%m%d%H%M")\<close>.
\<close>

record clock =
  time_time :: real
  date_today :: string
  utc_minute :: string

record budget_enforcer =
  tenant_id :: string
  max_runs_per_day :: int
  max_tokens_per_day :: int
  max_items_per_minute :: int

definition FAILURE_THRESHOLD :: int where
  "FAILURE_THRESHOLD = 5"

definition CIRCUIT_TIMEOUT :: real where
  "CIRCUIT_TIMEOUT = 300"

definition day_key :: "budget_enforcer \<Rightarrow> string \<Rightarrow> clock \<Rightarrow> string" where
  "day_key b metric c = ''budget:'' @ tenant_id b @ '':'' @ metric @ '':'' @ date_today c"

definition minute_key :: "budget_enforcer \<Rightarrow> clock \<Rightarrow> string" where
  "minute_key b c = ''rate:'' @ tenant_id b @ '':items:'' @ utc_minute c"

definition circuit_key :: "budget_enforcer \<Rightarrow> string" where
  "circuit_key b = ''circuit:'' @ tenant_id b"

definition check_circuit_breaker :: "budget_enforcer \<Rightarrow> redis \<Rightarrow> clock \<Rightarrow> (error + unit) \<times> redis" where
  "check_circuit_breaker b r c =
     (let key = circuit_key b;
          data = redis_hgetall r key (time_time c)
      in if data = empty_hash then (Inr (), r)
         else if (case state data of None \<Rightarrow> ''closed'' | Some s \<Rightarrow> s) = ''open''
         then (let opened = (case opened_at data of None \<Rightarrow> 0 | Some t \<Rightarrow> t)
               in if time_time c - opened > CIRCUIT_TIMEOUT
                  then (Inr (), redis_hset r key (\<lambda>h. h\<lparr>state := Some ''half-open''\<rparr>) (time_time c))
                  else (Inl CircuitOpenError, r))
         else (Inr (), r))"

definition record_failure :: "budget_enforcer \<Rightarrow> redis \<Rightarrow> clock \<Rightarrow> redis" where
  "record_failure b r c =
     (let key = circuit_key b;
          (n, r1) = redis_hincrby_failures r key 1 (time_time c);
          r2 = redis_expire r1 key (CIRCUIT_TIMEOUT * 2) (time_time c)
      in if n \<ge> FAILURE_THRESHOLD
         then redis_hset r2 key (\<lambda>h. h\<lparr>state := Some ''open'', opened_at := Some (time_time c)\<rparr>)
                (time_time c)
         else r2)"

definition record_success :: "budget_enforcer \<Rightarrow> redis \<Rightarrow> redis" where
  "record_success b r = redis_delete r (circuit_key b)"

definition get_or_0 :: "redis \<Rightarrow> string \<Rightarrow> real \<Rightarrow> int" where
  "get_or_0 r k t = (case redis_get r k t of None \<Rightarrow> 0 | Some v \<Rightarrow> v)"

definition check_rate_limit :: "budget_enforcer \<Rightarrow> redis \<Rightarrow> clock \<Rightarrow> error + unit" where
  "check_rate_limit b r c =
     (let current = get_or_0 r (minute_key b c) (time_time c)
      in if current \<ge> max_items_per_minute b then Inl (BudgetExceededError ''rate_limit'')
         else Inr ())"

definition increment_rate :: "budget_enforcer \<Rightarrow> redis \<Rightarrow> clock \<Rightarrow> redis" where
  "increment_rate b r c =
     (let key = minute_key b c
      in redis_expire (redis_incrby r key 1 (time_time c)) key 120 (time_time c))"

definition check_daily_runs :: "budget_enforcer \<Rightarrow> redis \<Rightarrow> clock \<Rightarrow> error + unit" where
  "check_daily_runs b r c =
     (let current = get_or_0 r (day_key b ''runs'' c) (time_time c)
      in if current \<ge> max_runs_per_day b then Inl (BudgetExceededError ''daily_runs'')
         else Inr ())"

definition increment_daily_runs :: "budget_enforcer \<Rightarrow> redis \<Rightarrow> clock \<Rightarrow> redis" where
  "increment_daily_runs b r c =
     (let key = day_key b ''runs'' c
      in redis_expire (redis_incrby r key 1 (time_time c)) key (86400 * 2) (time_time c))"

definition check_daily_tokens :: "budget_enforcer \<Rightarrow> redis \<Rightarrow> clock \<Rightarrow> int \<Rightarrow> error + unit" where
  "check_daily_tokens b r c estimated_tokens =
     (let current = get_or_0 r (day_key b ''tokens'' c) (time_time c)
      in if current + estimated_tokens > max_tokens_per_day b
         then Inl (BudgetExceededError ''daily_tokens'')
         else Inr ())"

definition add_daily_tokens :: "budget_enforcer \<Rightarrow> redis \<Rightarrow> clock \<Rightarrow> int \<Rightarrow> redis" where
  "add_daily_tokens b r c n =
     (let key = day_key b ''tokens'' c
      in redis_expire (redis_incrby r key n (time_time c)) key (86400 * 2) (time_time c))"

definition check_all :: "budget_enforcer \<Rightarrow> redis \<Rightarrow> clock \<Rightarrow> int \<Rightarrow> (error + unit) \<times> redis" where
  "check_all b r c estimated_tokens =
     (case check_circuit_breaker b r c of
        (Inl e, r1) \<Rightarrow> (Inl e, r1)
      | (Inr u, r1) \<Rightarrow>
          (case check_rate_limit b r1 c of
             Inl e \<Rightarrow> (Inl e, r1)
           | Inr u \<Rightarrow>
               (case check_daily_runs b r1 c of
                  Inl e \<Rightarrow> (Inl e, r1)
                | Inr u \<Rightarrow>
                    (case check_daily_tokens b r1 c estimated_tokens of
                       Inl e \<Rightarrow> (Inl e, r1)
                     | Inr u \<Rightarrow> (Inr (), r1)))))"

text \<open>What a reader of the circuit hash sees: \<open>data.get("state", "closed")\<close> and the
  failure count (an absent field counts as 0).\<close>

definition circuit_state :: "budget_enforcer \<Rightarrow> redis \<Rightarrow> real \<Rightarrow> string" where
  "circuit_state b r t =
     (case state (redis_hgetall r (circuit_key b) t) of None \<Rightarrow> ''closed'' | Some s \<Rightarrow> s)"

definition failure_count :: "budget_enforcer \<Rightarrow> redis \<Rightarrow> real \<Rightarrow> int" where
  "failure_count b r t =
     (case failures (redis_hgetall r (circuit_key b) t) of None \<Rightarrow> 0 | Some n \<Rightarrow> n)"

section \<open>Cost estimation\<close>

text \<open>
  \<open>estimate_cost\<close> of \<open>app/services/budget.py\<close>. Python floats are taken as exact
  real numbers; \<open>round(x, ndigits)\<close> rounds to the nearest multiple of
  \<open>10 ^ -ndigits\<close>, a tie going to the even one.
\<close>

definition py_round :: "real \<Rightarrow> nat \<Rightarrow> real" where
  "py_round x ndigits =
     (let y = x * 10 ^ ndigits;
          f = \<lfloor>y\<rfloor>;
          frac = y - of_int f
      in (if frac < 1 / 2 then of_int f
          else if frac > 1 / 2 then of_int (f + 1)
          else if even f then of_int f
          else of_int (f + 1)) / 10 ^ ndigits)"

definition pricing :: "(string \<times> real \<times> real) list" where
  "pricing =
     [(''local_7b'', 0, 0),
      (''claude-sonnet-4-20250514'', 3, 15),
      (''claude-haiku-4-5-20251001'', 8 / 10, 4)]"

text \<open>\<open>pricing.get(model, pricing["claude-sonnet-4-20250514"])\<close>; the default is
  looked up in the table itself (the key is there, so the lookup cannot fail).\<close>

definition rates_of :: "string \<Rightarrow> real \<times> real" where
  "rates_of mdl =
     (case map_of pricing mdl of
        Some rates \<Rightarrow> rates
      | None \<Rightarrow> (case map_of pricing ''claude-sonnet-4-20250514'' of
                    Some rates \<Rightarrow> rates
                  | None \<Rightarrow> (0, 0)))"

definition estimate_cost :: "int \<Rightarrow> int \<Rightarrow> string \<Rightarrow> real" where
  "estimate_cost input_tokens output_tokens mdl =
     (let rates = rates_of mdl;
          cost = (of_int input_tokens * fst rates + of_int output_tokens * snd rates) / 1000000
      in py_round cost 6)"

section \<open>Auxiliary notions for the proofs\<close>

definition unexpired :: "real \<Rightarrow> real option \<Rightarrow> bool" where
  "unexpired t d = (case d of None \<Rightarrow> True | Some x \<Rightarrow> t \<le> x)"

text \<open>The entry a hash operation works on: the live entry, or a fresh one.\<close>

definition cur :: "real \<Rightarrow> (circuit_hash \<times> real option) option \<Rightarrow> circuit_hash \<times> real option" where
  "cur t e = (case live t e of None \<Rightarrow> (empty_hash, None) | Some x \<Rightarrow> x)"

section \<open>Example states\<close>

definition ex_enforcer :: budget_enforcer where
  "ex_enforcer = \<lparr>tenant_id = ''t1'', max_runs_per_day = 100, max_tokens_per_day = 50000,
     max_items_per_minute = 5\<rparr>"

definition ex_clock :: "real \<Rightarrow> clock" where
  "ex_clock t = \<lparr>time_time = t, date_today = ''2026-01-01'', utc_minute = ''202601010000''\<rparr>"

text \<open>A store whose circuit hash holds the given fields, with the given deadline.\<close>

definition ex_circuit :: "circuit_hash \<Rightarrow> real option \<Rightarrow> redis" where
  "ex_circuit h d = empty_redis\<lparr>hashes := (\<lambda>k. if k = ''circuit:t1'' then Some (h, d) else None)\<rparr>"

text \<open>A store holding the three counters of \<open>ex_enforcer\<close> at \<open>ex_clock\<close>.\<close>

definition ex_counters :: "int \<Rightarrow> int \<Rightarrow> int \<Rightarrow> redis" where
  "ex_counters m d k = empty_redis\<lparr>strings :=
     (\<lambda>key. if key = ''rate:t1:items:202601010000'' then Some (m, None)
            else if key = ''budget:t1:runs:2026-01-01'' then Some (d, None)
            else if key = ''budget:t1:tokens:2026-01-01'' then Some (k, None)
            else None)\<rparr>"

section \<open>Model router\<close>

text \<open>
  \<open>ModelRouter\<close> of \<open>app/services/router.py\<close>. The two backends are outside the
  program: what each answers is an argument of the model. \<open>LocalFailed\<close> stands for any
  exception inside the \<open>try\<close> of \<open>call_local_model\<close> (connection, timeout, HTTP status,
  a body that is not JSON or whose content is not text); \<open>LocalReplied content tp\<close> is a
  decoded answer with its content and its \<open>tokens_predicted\<close> field, if present.
  \<open>CloudFailed\<close> stands for any exception inside the \<open>try\<close> of \<open>call_claude\<close>;
  \<open>CloudReplied i j text\<close> is an answer with its input and output token counts.
  One call reads one clock value, and the wall-clock \<open>duration\<close> of a result is left out.
\<close>

datatype local_reply = LocalFailed | LocalReplied string "int option"

datatype cloud_reply = CloudFailed | CloudReplied int int string

record settings =
  local_model_enabled :: bool
  platform_key_mode :: bool
  platform_anthropic_key :: string

record model_router =
  router_tenant_id :: string
  budget :: "budget_enforcer option"
  anthropic_key :: "string option"

record result =
  content :: string
  model :: string
  tokens :: int
  cost :: real
  input_tokens :: "int option"
  output_tokens :: "int option"
  task_type :: "string option"
  template_id :: "string option"

definition LOCAL_TASKS :: "string set" where
  "LOCAL_TASKS = {''classify'', ''extract'', ''summarize'', ''spam_check''}"

definition CLAUDE_TASKS :: "string set" where
  "CLAUDE_TASKS = {''draft_reply'', ''qualify_lead'', ''generate_questions'', ''complex_reasoning''}"

text \<open>The constructor resolves the key: the tenant's own key if it decrypts
  (\<open>decrypt_value\<close> returning \<open>None\<close> is the exception the constructor swallows), else
  the platform key when \<open>platform_key_mode\<close> is set. \<open>str_truthy\<close> is Python's
  truth value of an optional string: present and not empty.\<close>

definition str_truthy :: "string option \<Rightarrow> bool" where
  "str_truthy k = (case k of None \<Rightarrow> False | Some s \<Rightarrow> s \<noteq> [])"

definition ModelRouter ::
  "settings \<Rightarrow> (string \<Rightarrow> string option) \<Rightarrow> string \<Rightarrow> string option \<Rightarrow> budget_enforcer option \<Rightarrow> model_router" where
  "ModelRouter st decrypt_value tid anthropic_key_encrypted bud =
     (let k0 = (if str_truthy anthropic_key_encrypted
                then (case anthropic_key_encrypted of None \<Rightarrow> None | Some e \<Rightarrow> decrypt_value e)
                else None);
          k1 = (if \<not> str_truthy k0 \<and> platform_key_mode st
                then Some (platform_anthropic_key st) else k0)
      in \<lparr>router_tenant_id = tid, budget = bud, anthropic_key = k1\<rparr>)"

text \<open>\<open>len(s.split())\<close>, the number of words Python's \<open>str.split\<close> finds in a
  text, is a parameter of the model, written \<open>len_split\<close>: the router uses nothing of a
  prompt but this number. The token estimate \<open>len(prompt.split()) * 1.3\<close> is taken as the
  exact product.\<close>

text \<open>\<open>int(x)\<close> on a float truncates towards zero.\<close>

definition py_int :: "real \<Rightarrow> int" where
  "py_int x = (if 0 \<le> x then \<lfloor>x\<rfloor> else \<lceil>x\<rceil>)"

definition call_claude ::
  "(string \<Rightarrow> nat) \<Rightarrow> model_router \<Rightarrow> redis \<Rightarrow> clock \<Rightarrow> string \<Rightarrow> string \<Rightarrow> string \<Rightarrow> string \<Rightarrow> int \<Rightarrow> cloud_reply
     \<Rightarrow> (error + result) \<times> redis" where
  "call_claude len_split rt r c prompt task system_prompt mdl max_tokens reply =
     (if \<not> str_truthy (anthropic_key rt) then (Inl ValueError, r)
      else
        (let estimated_input = real (len_split prompt) * (13 / 10);
             checked = (case budget rt of
                          None \<Rightarrow> Inr ()
                        | Some b \<Rightarrow> check_daily_tokens b r c (py_int (estimated_input + of_int max_tokens)))
         in case checked of
              Inl e \<Rightarrow> (Inl e, r)
            | Inr u \<Rightarrow>
                (case reply of
                   CloudReplied i j text \<Rightarrow>
                     (Inr \<lparr>content = text, model = mdl, tokens = i + j,
                           cost = estimate_cost i j mdl,
                           input_tokens = Some i, output_tokens = Some j,
                           task_type = None, template_id = None\<rparr>,
                      case budget rt of
                        None \<Rightarrow> r
                      | Some b \<Rightarrow> record_success b (add_daily_tokens b r c (i + j)))
                 | CloudFailed \<Rightarrow>
                     (Inl APIError,
                      case budget rt of
                        None \<Rightarrow> r
                      | Some b \<Rightarrow> record_failure b r c))))"

definition default_content :: string where
  \<open>default_content = ''{"category": "general", "priority": "medium", "sentiment": "neutral", "suggested_team": "general", "needs_human": true, "confidence": 0.0}''\<close>

definition local_model_fallback ::
  "(string \<Rightarrow> nat) \<Rightarrow> model_router \<Rightarrow> redis \<Rightarrow> clock \<Rightarrow> string \<Rightarrow> string \<Rightarrow> cloud_reply \<Rightarrow> (error + result) \<times> redis" where
  "local_model_fallback len_split rt r c prompt task cloud =
     (if str_truthy (anthropic_key rt)
      then call_claude len_split rt r c prompt task [] ''claude-haiku-4-5-20251001'' 256 cloud
      else (Inr \<lparr>content = default_content, model = ''fallback_default'', tokens = 0, cost = 0,
                  input_tokens = None, output_tokens = None,
                  task_type = None, template_id = None\<rparr>, r))"

definition call_local_model ::
  "(string \<Rightarrow> nat) \<Rightarrow> settings \<Rightarrow> model_router \<Rightarrow> redis \<Rightarrow> clock \<Rightarrow> string \<Rightarrow> string \<Rightarrow> local_reply \<Rightarrow> cloud_reply
     \<Rightarrow> (error + result) \<times> redis" where
  "call_local_model len_split st rt r c prompt task local cloud =
     (if \<not> local_model_enabled st then local_model_fallback len_split rt r c prompt task cloud
      else
        (case local of
           LocalReplied text tokens_predicted \<Rightarrow>
             (let tokens_used = (case tokens_predicted of
                                   Some n \<Rightarrow> n
                                 | None \<Rightarrow> int (len_split text))
              in (Inr \<lparr>content = text, model = ''local_7b'', tokens = tokens_used, cost = 0,
                        input_tokens = None, output_tokens = None,
                        task_type = None, template_id = None\<rparr>,
                  case budget rt of
                    None \<Rightarrow> r
                  | Some b \<Rightarrow> add_daily_tokens b r c tokens_used))
         | LocalFailed \<Rightarrow> local_model_fallback len_split rt r c prompt task cloud))"

text \<open>\<open>route\<close>. A template, when one is named, is loaded from disk and formatted;
  \<open>rendered\<close> is what that gives (the prompt, or the exception it raises).\<close>

definition route ::
  "(string \<Rightarrow> nat) \<Rightarrow> settings \<Rightarrow> model_router \<Rightarrow> redis \<Rightarrow> clock \<Rightarrow> string \<Rightarrow> string \<Rightarrow> string option \<Rightarrow> (error + string)
     \<Rightarrow> string \<Rightarrow> int \<Rightarrow> local_reply \<Rightarrow> cloud_reply \<Rightarrow> (error + result) \<times> redis" where
  "route len_split st rt r c prompt task tmpl rendered system_prompt max_tokens local cloud =
     (case (if str_truthy tmpl then rendered else Inr prompt) of
        Inl e \<Rightarrow> (Inl e, r)
      | Inr prompt' \<Rightarrow>
          (case (case budget rt of None \<Rightarrow> (Inr (), r) | Some b \<Rightarrow> check_all b r c max_tokens) of
             (Inl e, r1) \<Rightarrow> (Inl e, r1)
           | (Inr u, r1) \<Rightarrow>
               (case (if task \<in> LOCAL_TASKS
                      then call_local_model len_split st rt r1 c prompt' task local cloud
                      else if task \<in> CLAUDE_TASKS
                      then call_claude len_split rt r1 c prompt' task system_prompt
                             ''claude-sonnet-4-20250514'' max_tokens cloud
                      else call_claude len_split rt r1 c prompt' task system_prompt
                             ''claude-sonnet-4-20250514'' max_tokens cloud) of
                  (Inl e, r2) \<Rightarrow> (Inl e, r2)
                | (Inr res, r2) \<Rightarrow> (Inr (res\<lparr>task_type := Some task, template_id := tmpl\<rparr>), r2))))"

definition ex_router :: "string option \<Rightarrow> model_router" where
  "ex_router k = \<lparr>router_tenant_id = ''t1'', budget = Some ex_enforcer, anthropic_key = k\<rparr>"

definition ex_settings :: settings where
  "ex_settings = \<lparr>local_model_enabled = True, platform_key_mode = False, platform_anthropic_key = []\<rparr>"

text \<open>The word counter of the examples: the number of maximal runs of characters other
  than the ASCII whitespace characters (tab, line feed, vertical tab, form feed, carriage
  return, the separators 28 to 31, space). On a text of ASCII characters it is
  \<open>len(s.split())\<close>; the examples use it on such texts only.\<close>

definition ascii_space :: "char \<Rightarrow> bool" where
  "ascii_space ch = ((of_char ch :: nat) \<in> {9, 10, 11, 12, 13, 28, 29, 30, 31, 32})"

fun ascii_count :: "bool \<Rightarrow> string \<Rightarrow> nat" where
  "ascii_count in_word [] = 0"
| "ascii_count in_word (ch # cs) =
     (if ascii_space ch then ascii_count False cs
      else (if in_word then 0 else 1) + ascii_count True cs)"

definition ascii_words :: "string \<Rightarrow> nat" where
  "ascii_words s = ascii_count False s"

section \<open>Python values\<close>

text \<open>
  What \<open>json.loads\<close> and \<open>yaml.safe_load\<close> return, and what the workers store in the
  fields of a ticket or a lead without looking at its type. A dictionary is an association
  list read with \<open>map_of\<close>; its keys are strings.
\<close>

datatype pyval =
    PNone
  | PBool bool
  | PInt int
  | PFloat real
  | PStr string
  | PList "pyval list"
  | PDict "(string \<times> pyval) list"

fun truthy :: "pyval \<Rightarrow> bool" where
  "truthy PNone = False"
| "truthy (PBool b) = b"
| "truthy (PInt n) = (n \<noteq> 0)"
| "truthy (PFloat x) = (x \<noteq> 0)"
| "truthy (PStr s) = (s \<noteq> [])"
| "truthy (PList xs) = (xs \<noteq> [])"
| "truthy (PDict kvs) = (kvs \<noteq> [])"

text \<open>The number a value stands for in a comparison (\<open>bool\<close> is an \<open>int\<close> in Python);
  comparing anything else with a number raises \<open>TypeError\<close>.\<close>

fun py_num :: "pyval \<Rightarrow> real option" where
  "py_num (PBool b) = Some (if b then 1 else 0)"
| "py_num (PInt n) = Some (of_int n)"
| "py_num (PFloat x) = Some x"
| "py_num v = None"

definition py_gt :: "pyval \<Rightarrow> real \<Rightarrow> error + bool" where
  "py_gt v y = (case py_num v of None \<Rightarrow> Inl TypeError | Some x \<Rightarrow> Inr (x > y))"

definition py_ge :: "pyval \<Rightarrow> real \<Rightarrow> error + bool" where
  "py_ge v y = (case py_num v of None \<Rightarrow> Inl TypeError | Some x \<Rightarrow> Inr (x \<ge> y))"

text \<open>\<open>d.get(key, default)\<close> on a dictionary.\<close>

definition dict_get :: "(string \<times> pyval) list \<Rightarrow> string \<Rightarrow> pyval \<Rightarrow> pyval" where
  "dict_get d k dflt = (case map_of d k of None \<Rightarrow> dflt | Some v \<Rightarrow> v)"

text \<open>\<open>v.get(key, default)\<close> on any value: only a dictionary has the method.\<close>

definition py_get :: "pyval \<Rightarrow> string \<Rightarrow> pyval \<Rightarrow> error + pyval" where
  "py_get v k dflt = (case v of PDict d \<Rightarrow> Inr (dict_get d k dflt) | _ \<Rightarrow> Inl AttributeError)"

section \<open>Reading JSON out of a model's answer\<close>








section \<open>Tickets and leads\<close>

text \<open>
  The fields of \<open>Ticket\<close> and \<open>Lead\<close> that the workers read or write. A field filled
  from a model's answer holds whatever value the answer gave (Python does not check the
  column type on assignment). The database session is outside the model: a commit succeeds
  and changes nothing the workers read.
\<close>

record ticket =
  subject :: "string option"
  body :: string
  from_email :: "string option"
  from_name :: "string option"
  category :: pyval
  priority :: pyval
  sentiment :: pyval
  suggested_team :: pyval
  needs_human :: pyval
  classification_confidence :: pyval
  classification_raw :: pyval
  draft_reply :: pyval
  internal_notes :: pyval
  recommended_action :: pyval
  follow_up_questions :: pyval
  assigned_team :: pyval
  tags :: pyval
  sla_due_at :: "real option"
  ticket_status :: string
  reply_sent :: bool


section \<open>The applying steps\<close>







section \<open>Example records\<close>





section \<open>Tenants, runs and the audit log\<close>

record tenant =
  tenant_key :: string
  tenant_max_runs_per_day :: int
  tenant_max_tokens_per_day :: int
  tenant_max_items_per_minute :: int
  anthropic_api_key_encrypted :: "string option"
  hubspot_api_key_encrypted :: "string option"
  autosend_enabled :: bool
  confidence_threshold :: real
  slack_webhook_url :: "string option"
  support_config_yaml :: "string option"

text \<open>An entry of \<open>steps_completed\<close>: the step, and the model and token count or the
  CRM identifiers where the worker records them.\<close>

record step =
  step_name :: string
  step_model :: "string option"
  step_tokens :: "int option"
  step_ids :: "(pyval \<times> pyval) option"

record run =
  run_status :: string
  current_step :: "string option"
  steps_completed :: "step list option"
  error_message :: "string option"

record audit_entry =
  action :: string
  audit_step :: string
  model_used :: "string option"
  reason_code :: "string option"

text \<open>\<open>create_model_router\<close> of \<open>app/workers/base.py\<close>.\<close>

definition create_model_router ::
  "settings \<Rightarrow> (string \<Rightarrow> string option) \<Rightarrow> tenant \<Rightarrow> model_router" where
  "create_model_router st decrypt_value tn =
     ModelRouter st decrypt_value (tenant_key tn) (anthropic_api_key_encrypted tn)
       (Some \<lparr>tenant_id = tenant_key tn,
              max_runs_per_day = tenant_max_runs_per_day tn,
              max_tokens_per_day = tenant_max_tokens_per_day tn,
              max_items_per_minute = tenant_max_items_per_minute tn\<rparr>)"

section \<open>Support triage: the auto-send check\<close>

text \<open>
  Step 5 of \<open>process_support_ticket\<close> (\<open>app/workers/support_triage.py\<close>, lines 104 to
  125): the condition is an \<open>and\<close> chain evaluated left to right, so the comparison is made
  only when auto-send is enabled and the confidence is truthy, and it raises \<open>TypeError\<close>
  when the confidence is not a number. The result is \<open>auto_sent\<close>, the ticket, and the
  audit entries written.
\<close>

definition autosend_check :: "tenant \<Rightarrow> ticket \<Rightarrow> error + bool \<times> ticket \<times> audit_entry list" where
  "autosend_check tn t =
     (case (if \<not> autosend_enabled tn then Inr False
            else if \<not> truthy (classification_confidence t) then Inr False
            else (case py_ge (classification_confidence t) (confidence_threshold tn) of
                    Inl e \<Rightarrow> Inl e
                  | Inr ge \<Rightarrow> Inr (ge \<and> \<not> truthy (needs_human t)))) of
        Inl e \<Rightarrow> Inl e
      | Inr True \<Rightarrow>
          Inr (True, t\<lparr>reply_sent := True, ticket_status := ''sent''\<rparr>,
               [\<lparr>action = ''email_sent'', audit_step = ''autosend'', model_used = None,
                 reason_code = Some ''confidence_above_threshold''\<rparr>])
      | Inr False \<Rightarrow> Inr (False, t\<lparr>ticket_status := ''draft_ready''\<rparr>, []))"

section \<open>Support triage: reading the routing config\<close>

text \<open>
  The first statements of \<open>_apply_routing_rules\<close> (\<open>app/workers/support_triage.py\<close>,
  lines 264 to 274), which every call runs before it writes any field: the config is the
  parsed document unless the text is empty, fails to parse (\<open>safe_load s = None\<close> stands for
  \<open>yaml.YAMLError\<close>) or parses to a falsy value; \<open>routing\<close> and \<open>team_map\<close> are then read
  with \<open>.get\<close>. The rest of the function is not modelled.
\<close>

definition routing_config :: "(string \<Rightarrow> pyval option) \<Rightarrow> tenant \<Rightarrow> pyval" where
  "routing_config safe_load tn =
     (if str_truthy (support_config_yaml tn)
      then (case support_config_yaml tn of
              None \<Rightarrow> PDict []
            | Some s \<Rightarrow>
                (case safe_load s of
                   None \<Rightarrow> PDict []
                 | Some v \<Rightarrow> if truthy v then v else PDict []))
      else PDict [])"

definition routing_team_map :: "(string \<Rightarrow> pyval option) \<Rightarrow> tenant \<Rightarrow> error + pyval" where
  "routing_team_map safe_load tn =
     (case py_get (routing_config safe_load tn) ''routing'' (PDict []) of
        Inl e \<Rightarrow> Inl e
      | Inr routing \<Rightarrow> py_get routing ''team_map'' (PDict []))"

definition ex_tenant :: tenant where
  "ex_tenant = \<lparr>tenant_key = ''t1'', tenant_max_runs_per_day = 100,
     tenant_max_tokens_per_day = 50000, tenant_max_items_per_minute = 5,
     anthropic_api_key_encrypted = None, hubspot_api_key_encrypted = None,
     autosend_enabled = True, confidence_threshold = 85 / 100,
     slack_webhook_url = None, support_config_yaml = None\<rparr>"

section \<open>Properties\<close>

section \<open>The counter checks\<close>

lemma strings_redis_hset: "strings (redis_hset r k upd t) = strings r"
  by (simp add: redis_hset_def split: option.splits prod.splits)

lemma strings_check_circuit_breaker: "strings (snd (check_circuit_breaker b r c)) = strings r"
  by (simp add: check_circuit_breaker_def Let_def strings_redis_hset)

lemma get_or_0_strings: "strings r' = strings r \<Longrightarrow> get_or_0 r' k t = get_or_0 r k t"
  by (simp add: get_or_0_def redis_get_def)

lemma check_circuit_breaker_cases:
  "fst (check_circuit_breaker b r c) = Inr () \<or> fst (check_circuit_breaker b r c) = Inl CircuitOpenError"
  by (simp add: check_circuit_breaker_def Let_def)

lemma check_rate_limit_frame: "strings r' = strings r \<Longrightarrow> check_rate_limit b r' c = check_rate_limit b r c"
  by (simp add: check_rate_limit_def get_or_0_def redis_get_def)

lemma check_daily_runs_frame: "strings r' = strings r \<Longrightarrow> check_daily_runs b r' c = check_daily_runs b r c"
  by (simp add: check_daily_runs_def get_or_0_def redis_get_def)

lemma check_daily_tokens_frame: "strings r' = strings r \<Longrightarrow> check_daily_tokens b r' c n = check_daily_tokens b r c n"
  by (simp add: check_daily_tokens_def get_or_0_def redis_get_def)

lemma check_all_unfold:
  "check_all b r c n =
     (case fst (check_circuit_breaker b r c) of
        Inl e \<Rightarrow> Inl e
      | Inr u \<Rightarrow>
         (if max_items_per_minute b \<le> get_or_0 r (minute_key b c) (time_time c)
          then Inl (BudgetExceededError ''rate_limit'')
          else if max_runs_per_day b \<le> get_or_0 r (day_key b ''runs'' c) (time_time c)
          then Inl (BudgetExceededError ''daily_runs'')
          else if max_tokens_per_day b < get_or_0 r (day_key b ''tokens'' c) (time_time c) + n
          then Inl (BudgetExceededError ''daily_tokens'')
          else Inr ()),
      snd (check_circuit_breaker b r c))"
proof -
  obtain res r1 where cb: "check_circuit_breaker b r c = (res, r1)"
    by (cases "check_circuit_breaker b r c")
  then have fr: "strings r1 = strings r"
    using strings_check_circuit_breaker [of b r c] by simp
  show ?thesis
    by (cases res)
       (simp_all add: check_all_def cb get_or_0_strings [OF fr]
          check_rate_limit_def check_daily_runs_def check_daily_tokens_def Let_def)
qed

section \<open>The circuit hash\<close>

lemma live_Some: "live t (Some (v, d)) = (if unexpired t d then Some (v, d) else None)"
  by (cases d) (simp_all add: unexpired_def)

lemma live_None_iff: "live t e = None \<longleftrightarrow> (case e of None \<Rightarrow> True | Some (v, d) \<Rightarrow> \<not> unexpired t d)"
  by (cases e) (auto simp add: live_Some)

lemma live_eq_SomeD:
  assumes "live t e = Some (v, d)"
  shows "e = Some (v, d)" and "unexpired t d"
proof -
  from assms obtain p where e: "e = Some p" by (cases e) simp_all
  obtain v' d' where p: "p = (v', d')" by (cases p)
  from assms e p have "(if unexpired t d' then Some (v', d') else None) = Some (v, d)"
    by (simp only: live_Some)
  then have "unexpired t d' \<and> v' = v \<and> d' = d"
    by (cases "unexpired t d'") simp_all
  with e p show "e = Some (v, d)" and "unexpired t d" by auto
qed

lemma unexpired_cur: "unexpired t (snd (cur t e))"
proof (cases "live t e")
  case None
  then show ?thesis by (simp add: cur_def unexpired_def)
next
  case (Some x)
  obtain h d where x: "x = (h, d)" by (cases x)
  with Some have "live t e = Some (h, d)" by simp
  then have "unexpired t d" by (rule live_eq_SomeD(2))
  with Some x show ?thesis by (simp add: cur_def)
qed

lemma hgetall_cur: "redis_hgetall r k t = fst (cur t (hashes r k))"
  by (simp add: redis_hgetall_def cur_def split: option.splits prod.splits)

lemma hset_cur:
  "redis_hset r k upd t =
     r\<lparr>hashes := (hashes r)(k := Some (upd (fst (cur t (hashes r k))), snd (cur t (hashes r k))))\<rparr>"
  by (simp add: redis_hset_def cur_def split: option.splits prod.splits)

lemma hincrby_cur:
  "redis_hincrby_failures r k n t =
     (let h = fst (cur t (hashes r k));
          v = (case failures h of None \<Rightarrow> 0 | Some c \<Rightarrow> c) + n
      in (v, r\<lparr>hashes := (hashes r)(k := Some (h\<lparr>failures := Some v\<rparr>, snd (cur t (hashes r k))))\<rparr>))"
  by (simp add: redis_hincrby_failures_def cur_def Let_def empty_hash_def
      split: option.splits prod.splits)

lemma hashes_strings_update: "hashes (case x of None \<Rightarrow> r | Some (v, d) \<Rightarrow> r\<lparr>strings := f v d\<rparr>) = hashes r"
  by (simp split: option.splits prod.splits)

lemma hashes_redis_expire:
  "hashes (redis_expire r k secs t) =
     (case live t (hashes r k) of
        None \<Rightarrow> hashes r
      | Some (h, d) \<Rightarrow> (hashes r)(k := Some (h, Some (t + secs))))"
  unfolding redis_expire_def Let_def hashes_strings_update
  by (simp split: option.splits prod.splits)

lemma hgetall_record_failure:
  "redis_hgetall (record_failure b r c) (circuit_key b) t' =
     (let h = redis_hgetall r (circuit_key b) (time_time c);
          n = (case failures h of None \<Rightarrow> 0 | Some k \<Rightarrow> k) + 1
      in if t' \<le> time_time c + 600
         then (if 5 \<le> n then h\<lparr>failures := Some n, state := Some ''open'',
                                   opened_at := Some (time_time c)\<rparr>
               else h\<lparr>failures := Some n\<rparr>)
         else empty_hash)"
proof -
  define k where "k = circuit_key b"
  define t where "t = time_time c"
  define h where "h = fst (cur t (hashes r k))"
  define d where "d = snd (cur t (hashes r k))"
  define n where "n = (case failures h of None \<Rightarrow> 0 | Some j \<Rightarrow> j) + 1"
  define r1 where "r1 = r\<lparr>hashes := (hashes r)(k := Some (h\<lparr>failures := Some n\<rparr>, d))\<rparr>"
  define r2 where "r2 = redis_expire r1 k (CIRCUIT_TIMEOUT * 2) t"
  have ud: "unexpired t d"
    unfolding d_def by (rule unexpired_cur)
  have inc: "redis_hincrby_failures r k 1 t = (n, r1)"
    by (simp add: hincrby_cur Let_def h_def d_def n_def r1_def)
  have l1: "live t (hashes r1 k) = Some (h\<lparr>failures := Some n\<rparr>, d)"
    using ud by (simp add: r1_def live_Some)
  have h2: "hashes r2 k = Some (h\<lparr>failures := Some n\<rparr>, Some (t + 600))"
    by (simp add: r2_def hashes_redis_expire l1 CIRCUIT_TIMEOUT_def)
  have c2: "cur t (hashes r2 k) = (h\<lparr>failures := Some n\<rparr>, Some (t + 600))"
    by (simp add: cur_def h2 live_Some unexpired_def)
  have rf: "record_failure b r c =
      (if n \<ge> 5
       then redis_hset r2 k (\<lambda>h. h\<lparr>state := Some ''open'', opened_at := Some t\<rparr>) t
       else r2)"
    by (simp add: record_failure_def Let_def inc r2_def FAILURE_THRESHOLD_def
        k_def [symmetric] t_def [symmetric])
  have hg: "redis_hgetall r k t = h"
    by (simp add: hgetall_cur h_def)
  show ?thesis
  proof (cases "n \<ge> 5")
    case True
    have "hashes (record_failure b r c) k =
        Some (h\<lparr>failures := Some n, state := Some ''open'', opened_at := Some t\<rparr>, Some (t + 600))"
      using True by (simp add: rf hset_cur c2)
    then show ?thesis
      using True
      by (simp add: redis_hgetall_def live_Some unexpired_def Let_def
          k_def [symmetric] t_def [symmetric] n_def [symmetric] hg [unfolded redis_hgetall_def])
  next
    case False
    have "hashes (record_failure b r c) k = Some (h\<lparr>failures := Some n\<rparr>, Some (t + 600))"
      using False by (simp add: rf h2)
    then show ?thesis
      using False
      by (simp add: redis_hgetall_def live_Some unexpired_def Let_def
          k_def [symmetric] t_def [symmetric] n_def [symmetric] hg [unfolded redis_hgetall_def])
  qed
qed

section \<open>Cost estimation: properties\<close>

lemma py_round_exact: "py_round (of_int k / 1000000) 6 = of_int k / 1000000"
  by (simp add: py_round_def Let_def)

lemma py_round_fifths:
  "\<exists>k. py_round ((of_int n / 5) / 1000000) 6 = of_int k / 1000000
       \<and> \<bar>of_int k - (of_int n / 5 :: real)\<bar> < 1 / 2"
proof -
  define q where "q = n div 5"
  define m where "m = n mod 5"
  have n: "n = 5 * q + m" and m0: "0 \<le> m" and m5: "m < 5"
    by (simp_all add: q_def m_def)
  have y: "(of_int n / 5 :: real) = of_int q + of_int m / 5"
    by (simp add: n)
  have fl: "\<lfloor>(of_int n / 5 :: real)\<rfloor> = q"
    using m0 m5 by (simp add: y floor_eq_iff)
  have fr: "(of_int n / 5 :: real) - of_int q = of_int m / 5"
    by (simp add: y)
  have sc: "(of_int n / 5 :: real) / 1000000 * 10 ^ 6 = of_int n / 5"
    by simp
  show ?thesis
  proof (cases "m \<le> 2")
    case True
    then have lt: "(of_int m / 5 :: real) < 1 / 2"
      by simp
    have "py_round ((of_int n / 5) / 1000000) 6 = of_int q / 1000000"
      unfolding py_round_def Let_def sc fl fr using lt by simp
    moreover have "\<bar>of_int q - (of_int n / 5 :: real)\<bar> < 1 / 2"
      using lt m0 by (simp add: y)
    ultimately show ?thesis by blast
  next
    case False
    then have gt: "(of_int m / 5 :: real) > 1 / 2" and nlt: "\<not> (of_int m / 5 :: real) < 1 / 2"
      by simp_all
    have "py_round ((of_int n / 5) / 1000000) 6 = of_int (q + 1) / 1000000"
      unfolding py_round_def Let_def sc fl fr using gt nlt by simp
    moreover have "\<bar>of_int (q + 1) - (of_int n / 5 :: real)\<bar> < 1 / 2"
      using gt m5 by (simp add: y)
    ultimately show ?thesis by blast
  qed
qed

lemma rates_of_table:
  "rates_of m = (if m = ''local_7b'' then (0, 0)
                 else if m = ''claude-haiku-4-5-20251001'' then (8 / 10, 4)
                 else (3, 15))"
  by (simp add: rates_of_def pricing_def)

lemma estimate_cost_nearest:
  "\<exists>k. estimate_cost i j m = of_int k / 1000000
       \<and> \<bar>of_int k - (of_int i * fst (rates_of m) + of_int j * snd (rates_of m))\<bar> < 1 / 2"
proof -
  consider (loc) "m = ''local_7b''" | (haiku) "m = ''claude-haiku-4-5-20251001''"
    | (other) "m \<noteq> ''local_7b''" "m \<noteq> ''claude-haiku-4-5-20251001''"
    by blast
  then show ?thesis
  proof cases
    case loc
    have "estimate_cost i j m = of_int 0 / 1000000"
      by (simp add: estimate_cost_def rates_of_table loc Let_def py_round_def)
    then show ?thesis
      by (intro exI [of _ 0]) (simp add: rates_of_table loc)
  next
    case haiku
    have e: "(of_int i * (8 / 10) + of_int j * 4 :: real) = of_int (4 * i + 20 * j) / 5"
      by simp
    from py_round_fifths [of "4 * i + 20 * j"] obtain k where
      k: "py_round ((of_int (4 * i + 20 * j) / 5) / 1000000) 6 = of_int k / 1000000"
      and d: "\<bar>of_int k - (of_int (4 * i + 20 * j) / 5 :: real)\<bar> < 1 / 2"
      by blast
    have r: "rates_of m = (8 / 10, 4)"
      by (simp add: rates_of_table haiku)
    have "estimate_cost i j m = py_round ((of_int i * (8 / 10) + of_int j * 4) / 1000000) 6"
      unfolding estimate_cost_def Let_def r by simp
    also have "\<dots> = of_int k / 1000000"
      unfolding e by (rule k)
    finally have "estimate_cost i j m = of_int k / 1000000" .
    moreover have "\<bar>of_int k - (of_int i * fst (rates_of m) + of_int j * snd (rates_of m))\<bar> < 1 / 2"
      unfolding r fst_conv snd_conv e by (rule d)
    ultimately show ?thesis by blast
  next
    case other
    have r: "rates_of m = (3, 15)"
      by (simp add: rates_of_table other)
    have e: "(of_int i * 3 + of_int j * 15 :: real) / 1000000 = of_int (3 * i + 15 * j) / 1000000"
      by simp
    have "estimate_cost i j m = py_round ((of_int i * 3 + of_int j * 15) / 1000000) 6"
      unfolding estimate_cost_def Let_def r by simp
    also have "\<dots> = of_int (3 * i + 15 * j) / 1000000"
      unfolding e by (rule py_round_exact)
    finally have "estimate_cost i j m = of_int (3 * i + 15 * j) / 1000000" .
    moreover have "\<bar>of_int (3 * i + 15 * j) - (of_int i * fst (rates_of m) + of_int j * snd (rates_of m))\<bar> < 1 / 2"
      unfolding r fst_conv snd_conv by simp
    ultimately show ?thesis by blast
  qed
qed

lemma est_haiku_examples:
  "estimate_cost 1 0 ''claude-haiku-4-5-20251001'' = 1 / 1000000"
  "estimate_cost 3 0 ''claude-haiku-4-5-20251001'' = 2 / 1000000"
  "estimate_cost 1000 500 ''claude-haiku-4-5-20251001'' = 28 / 10000"
  by (simp_all add: estimate_cost_def rates_of_table Let_def py_round_def)

lemma est_sonnet: "estimate_cost i j ''claude-sonnet-4-20250514'' = (3 * of_int i + 15 * of_int j) / 1000000"
proof -
  have e: "(of_int i * 3 + of_int j * 15) / 1000000 = (of_int (3 * i + 15 * j) :: real) / 1000000"
    by simp
  have "estimate_cost i j ''claude-sonnet-4-20250514'' =
      py_round ((of_int i * 3 + of_int j * 15) / 1000000) 6"
    by (simp add: estimate_cost_def rates_of_table Let_def)
  also have "\<dots> = py_round (of_int (3 * i + 15 * j) / 1000000) 6"
    by (simp only: e)
  also have "\<dots> = of_int (3 * i + 15 * j) / 1000000"
    by (rule py_round_exact)
  also have "\<dots> = (3 * of_int i + 15 * of_int j) / 1000000"
    by simp
  finally show ?thesis .
qed

lemma est_local: "estimate_cost i j ''local_7b'' = 0"
  by (simp add: estimate_cost_def rates_of_table Let_def py_round_def)

text \<open>
  Claim C5. For all token counts and every model id, \<open>estimate_cost\<close> is the linear
  formula over the static price table, rounded to six decimals: it is the multiple of
  \<open>10^-6\<close> nearest to \<open>(in * price_in + out * price_out) / 10^6\<close> (with the prices of the
  table no tie arises). The local model costs 0, an unknown model id is priced as the default
  cloud model, whose cost is exactly \<open>(3 * in + 15 * out) / 10^6\<close>, and
  \<open>estimate_cost(1000, 500, "claude-sonnet-4-20250514")\<close> is 0.0105. Rounding shows with
  the haiku prices: one input token costs 0.8 millionths and is estimated at 0.000001, three
  cost 2.4 millionths and are estimated at 0.000002.
\<close>

theorem estimate_cost_formula:
  "estimate_cost i j m =
     py_round ((of_int i * fst (rates_of m) + of_int j * snd (rates_of m)) / 1000000) 6
   \<and> (\<exists>k. estimate_cost i j m = of_int k / 1000000
          \<and> \<bar>of_int k - (of_int i * fst (rates_of m) + of_int j * snd (rates_of m))\<bar> < 1 / 2)
   \<and> rates_of m = (if m = ''local_7b'' then (0, 0)
                    else if m = ''claude-haiku-4-5-20251001'' then (8 / 10, 4)
                    else (3, 15))
   \<and> estimate_cost i j ''local_7b'' = 0
   \<and> estimate_cost i j m =
       (if m = ''local_7b'' then 0
        else if m = ''claude-haiku-4-5-20251001'' then py_round ((of_int i * (8 / 10) + of_int j * 4) / 1000000) 6
        else estimate_cost i j ''claude-sonnet-4-20250514'')
   \<and> estimate_cost i j ''claude-sonnet-4-20250514'' = (3 * of_int i + 15 * of_int j) / 1000000
   \<and> estimate_cost 1000 500 ''claude-sonnet-4-20250514'' = 105 / 10000
   \<and> estimate_cost 1 0 ''claude-haiku-4-5-20251001'' = 1 / 1000000
   \<and> estimate_cost 3 0 ''claude-haiku-4-5-20251001'' = 2 / 1000000
   \<and> estimate_cost 1000 500 ''claude-haiku-4-5-20251001'' = 28 / 10000"
proof -
  have a: "estimate_cost i j m =
     py_round ((of_int i * fst (rates_of m) + of_int j * snd (rates_of m)) / 1000000) 6"
    by (simp add: estimate_cost_def Let_def)
  have b: "estimate_cost i j m =
       (if m = ''local_7b'' then 0
        else if m = ''claude-haiku-4-5-20251001'' then py_round ((of_int i * (8 / 10) + of_int j * 4) / 1000000) 6
        else estimate_cost i j ''claude-sonnet-4-20250514'')"
    by (simp add: est_local) (simp add: estimate_cost_def rates_of_table Let_def)
  have c: "estimate_cost 1000 500 ''claude-sonnet-4-20250514'' = 105 / 10000"
    by (simp add: est_sonnet)
  from a b c estimate_cost_nearest [of i j m] rates_of_table [of m] est_local [of i j]
    est_sonnet [of i j] est_haiku_examples
  show ?thesis
    by blast
qed

section \<open>Admission checks\<close>

lemma ex_keys:
  "minute_key ex_enforcer (ex_clock t) = ''rate:t1:items:202601010000''"
  "day_key ex_enforcer ''runs'' (ex_clock t) = ''budget:t1:runs:2026-01-01''"
  "day_key ex_enforcer ''tokens'' (ex_clock t) = ''budget:t1:tokens:2026-01-01''"
  "circuit_key ex_enforcer = ''circuit:t1''"
  "time_time (ex_clock t) = t"
  by (simp_all add: minute_key_def day_key_def circuit_key_def ex_enforcer_def ex_clock_def)

lemma ex_counters_get:
  "get_or_0 (ex_counters m d k) ''rate:t1:items:202601010000'' t = m"
  "get_or_0 (ex_counters m d k) ''budget:t1:runs:2026-01-01'' t = d"
  "get_or_0 (ex_counters m d k) ''budget:t1:tokens:2026-01-01'' t = k"
  by (simp_all add: get_or_0_def redis_get_def ex_counters_def empty_redis_def)

lemma ex_counters_circuit:
  "check_circuit_breaker ex_enforcer (ex_counters m d k) (ex_clock t) = (Inr (), ex_counters m d k)"
  by (simp add: check_circuit_breaker_def redis_hgetall_def ex_counters_def empty_redis_def Let_def)

text \<open>
  Claim C1. For every quota profile and every counter state, \<open>check_all\<close> runs the circuit
  breaker, the per-minute rate check, the daily run check and the daily token check in that
  order, and the first failing one decides: a circuit failure is \<open>CircuitOpenError\<close>, a
  counter failure is a \<open>BudgetExceededError\<close> carrying \<open>rate_limit\<close>, \<open>daily_runs\<close>
  or \<open>daily_tokens\<close>. The rate check denies iff the minute count has reached
  \<open>max_items_per_minute\<close>, the run check iff the day's run count has reached
  \<open>max_runs_per_day\<close>, the token check iff the day's token count plus the estimate exceeds
  \<open>max_tokens_per_day\<close>. The counter checks leave the store as the circuit check left it.
\<close>

theorem check_all_first_failing_check:
  "check_rate_limit b r c =
     (if max_items_per_minute b \<le> get_or_0 r (minute_key b c) (time_time c)
      then Inl (BudgetExceededError ''rate_limit'') else Inr ())
   \<and> check_daily_runs b r c =
     (if max_runs_per_day b \<le> get_or_0 r (day_key b ''runs'' c) (time_time c)
      then Inl (BudgetExceededError ''daily_runs'') else Inr ())
   \<and> check_daily_tokens b r c n =
     (if max_tokens_per_day b < get_or_0 r (day_key b ''tokens'' c) (time_time c) + n
      then Inl (BudgetExceededError ''daily_tokens'') else Inr ())
   \<and> (fst (check_circuit_breaker b r c) = Inr ()
        \<or> fst (check_circuit_breaker b r c) = Inl CircuitOpenError)
   \<and> fst (check_all b r c n) =
     (if fst (check_circuit_breaker b r c) = Inl CircuitOpenError then Inl CircuitOpenError
      else if max_items_per_minute b \<le> get_or_0 r (minute_key b c) (time_time c)
      then Inl (BudgetExceededError ''rate_limit'')
      else if max_runs_per_day b \<le> get_or_0 r (day_key b ''runs'' c) (time_time c)
      then Inl (BudgetExceededError ''daily_runs'')
      else if max_tokens_per_day b < get_or_0 r (day_key b ''tokens'' c) (time_time c) + n
      then Inl (BudgetExceededError ''daily_tokens'')
      else Inr ())
   \<and> snd (check_all b r c n) = snd (check_circuit_breaker b r c)"
proof -
  have a: "check_rate_limit b r c =
     (if max_items_per_minute b \<le> get_or_0 r (minute_key b c) (time_time c)
      then Inl (BudgetExceededError ''rate_limit'') else Inr ())"
    by (simp add: check_rate_limit_def Let_def)
  have b: "check_daily_runs b r c =
     (if max_runs_per_day b \<le> get_or_0 r (day_key b ''runs'' c) (time_time c)
      then Inl (BudgetExceededError ''daily_runs'') else Inr ())"
    by (simp add: check_daily_runs_def Let_def)
  have c: "check_daily_tokens b r c n =
     (if max_tokens_per_day b < get_or_0 r (day_key b ''tokens'' c) (time_time c) + n
      then Inl (BudgetExceededError ''daily_tokens'') else Inr ())"
    by (simp add: check_daily_tokens_def Let_def)
  note d = check_circuit_breaker_cases [of b r c]
  have e: "fst (check_all b r c n) =
     (if fst (check_circuit_breaker b r c) = Inl CircuitOpenError then Inl CircuitOpenError
      else if max_items_per_minute b \<le> get_or_0 r (minute_key b c) (time_time c)
      then Inl (BudgetExceededError ''rate_limit'')
      else if max_runs_per_day b \<le> get_or_0 r (day_key b ''runs'' c) (time_time c)
      then Inl (BudgetExceededError ''daily_runs'')
      else if max_tokens_per_day b < get_or_0 r (day_key b ''tokens'' c) (time_time c) + n
      then Inl (BudgetExceededError ''daily_tokens'')
      else Inr ())"
    using d by (auto simp add: check_all_unfold)
  have f: "snd (check_all b r c n) = snd (check_circuit_breaker b r c)"
    by (simp add: check_all_unfold)
  from a b c d e f show ?thesis by blast
qed

theorem check_all_first_failing_check_witness:
  "fst (check_all ex_enforcer (ex_counters 5 100 50000) (ex_clock 0) 1000) = Inl (BudgetExceededError ''rate_limit'')
   \<and> fst (check_all ex_enforcer (ex_counters 4 100 50000) (ex_clock 0) 1000) = Inl (BudgetExceededError ''daily_runs'')
   \<and> fst (check_all ex_enforcer (ex_counters 4 99 49001) (ex_clock 0) 1000) = Inl (BudgetExceededError ''daily_tokens'')
   \<and> fst (check_all ex_enforcer (ex_counters 4 99 49000) (ex_clock 0) 1000) = Inr ()"
  using check_all_first_failing_check [of ex_enforcer "ex_counters 5 100 50000" "ex_clock 0" 1000]
    check_all_first_failing_check [of ex_enforcer "ex_counters 4 100 50000" "ex_clock 0" 1000]
    check_all_first_failing_check [of ex_enforcer "ex_counters 4 99 49001" "ex_clock 0" 1000]
    check_all_first_failing_check [of ex_enforcer "ex_counters 4 99 49000" "ex_clock 0" 1000]
  by (simp add: ex_keys ex_counters_get ex_counters_circuit) (simp add: ex_enforcer_def)

section \<open>The circuit breaker\<close>

lemma hgetall_hset_same:
  "redis_hgetall (redis_hset r k upd t) k t = upd (redis_hgetall r k t)"
proof -
  have "unexpired t (snd (cur t (hashes r k)))"
    by (rule unexpired_cur)
  then show ?thesis
    by (simp add: hset_cur redis_hgetall_def live_Some) (simp add: cur_def redis_hgetall_def split: option.splits prod.splits)
qed

lemma check_circuit_breaker_open:
  assumes "state (redis_hgetall r (circuit_key b) (time_time c)) = Some ''open''"
  shows "check_circuit_breaker b r c =
     (if time_time c - (case opened_at (redis_hgetall r (circuit_key b) (time_time c)) of
                          None \<Rightarrow> 0 | Some t \<Rightarrow> t) > 300
      then (Inr (), redis_hset r (circuit_key b) (\<lambda>h. h\<lparr>state := Some ''half-open''\<rparr>) (time_time c))
      else (Inl CircuitOpenError, r))"
proof -
  from assms have "redis_hgetall r (circuit_key b) (time_time c) \<noteq> empty_hash"
    by (auto simp add: empty_hash_def)
  with assms show ?thesis
    by (simp add: check_circuit_breaker_def Let_def CIRCUIT_TIMEOUT_def)
qed

lemma hgetall_record_success:
  "redis_hgetall (record_success b r) (circuit_key b) t = empty_hash"
  by (simp add: record_success_def redis_delete_def redis_hgetall_def)

lemma five_failures:
  assumes clear: "redis_hgetall r (circuit_key b) (time_time c1) = empty_hash"
    and g2: "time_time c2 \<le> time_time c1 + 600"
    and g3: "time_time c3 \<le> time_time c2 + 600"
    and g4: "time_time c4 \<le> time_time c3 + 600"
    and g5: "time_time c5 \<le> time_time c4 + 600"
  shows "redis_hgetall (record_failure b (record_failure b (record_failure b (record_failure b r c1) c2) c3) c4)
           (circuit_key b) (time_time c5) = \<lparr>failures = Some 4, state = None, opened_at = None\<rparr>"
    and "redis_hgetall (record_failure b (record_failure b (record_failure b (record_failure b
             (record_failure b r c1) c2) c3) c4) c5) (circuit_key b) (time_time c5)
         = \<lparr>failures = Some 5, state = Some ''open'', opened_at = Some (time_time c5)\<rparr>"
proof -
  define k where "k = circuit_key b"
  define r1 where "r1 = record_failure b r c1"
  define r2 where "r2 = record_failure b r1 c2"
  define r3 where "r3 = record_failure b r2 c3"
  define r4 where "r4 = record_failure b r3 c4"
  have h1: "redis_hgetall r1 k (time_time c2) = \<lparr>failures = Some 1, state = None, opened_at = None\<rparr>"
    using g2 by (simp add: r1_def k_def hgetall_record_failure clear Let_def empty_hash_def)
  have h2: "redis_hgetall r2 k (time_time c3) = \<lparr>failures = Some 2, state = None, opened_at = None\<rparr>"
    using g3 by (simp add: r2_def k_def hgetall_record_failure h1 [unfolded k_def] Let_def)
  have h3: "redis_hgetall r3 k (time_time c4) = \<lparr>failures = Some 3, state = None, opened_at = None\<rparr>"
    using g4 by (simp add: r3_def k_def hgetall_record_failure h2 [unfolded k_def] Let_def)
  have h4: "redis_hgetall r4 k (time_time c5) = \<lparr>failures = Some 4, state = None, opened_at = None\<rparr>"
    using g5 by (simp add: r4_def k_def hgetall_record_failure h3 [unfolded k_def] Let_def)
  have h5: "redis_hgetall (record_failure b r4 c5) k (time_time c5)
      = \<lparr>failures = Some 5, state = Some ''open'', opened_at = Some (time_time c5)\<rparr>"
    by (simp add: k_def hgetall_record_failure h4 [unfolded k_def] Let_def)
  from h4 show "redis_hgetall (record_failure b (record_failure b (record_failure b (record_failure b r c1) c2) c3) c4)
           (circuit_key b) (time_time c5) = \<lparr>failures = Some 4, state = None, opened_at = None\<rparr>"
    by (simp add: r4_def r3_def r2_def r1_def k_def)
  from h5 show "redis_hgetall (record_failure b (record_failure b (record_failure b (record_failure b
             (record_failure b r c1) c2) c3) c4) c5) (circuit_key b) (time_time c5)
         = \<lparr>failures = Some 5, state = Some ''open'', opened_at = Some (time_time c5)\<rparr>"
    by (simp add: r4_def r3_def r2_def r1_def k_def)
qed

lemma ex_circuit_hgetall:
  "redis_hgetall (ex_circuit h d) ''circuit:t1'' t = (if unexpired t d then h else empty_hash)"
  by (simp add: redis_hgetall_def ex_circuit_def empty_redis_def live_Some)

lemma empty_redis_hgetall: "redis_hgetall empty_redis k t = empty_hash"
  by (simp add: redis_hgetall_def empty_redis_def)

text \<open>
  Claim C2, as the code has it. Five consecutive \<open>record_failure\<close> calls from a clear
  state, each made no later than 600 seconds after the one before (the expiry every call puts
  on the circuit key), take the circuit from closed to open, with \<open>opened_at\<close> the time
  of the fifth call. While the hash is open, a check made strictly more than 300 seconds after
  \<open>opened_at\<close> lets the request through and sets the state to half-open as a side effect;
  a check made at most 300 seconds after \<open>opened_at\<close> raises \<open>CircuitOpenError\<close> and
  leaves the store as it was. \<open>record_success\<close> resets the failure count to 0 and the
  state to closed, from every state, half-open included.
\<close>

theorem circuit_breaker_state_machine:
  "(redis_hgetall r (circuit_key b) (time_time c1) = empty_hash
      \<and> time_time c2 \<le> time_time c1 + 600 \<and> time_time c3 \<le> time_time c2 + 600
      \<and> time_time c4 \<le> time_time c3 + 600 \<and> time_time c5 \<le> time_time c4 + 600
    \<longrightarrow> circuit_state b (record_failure b (record_failure b (record_failure b
            (record_failure b r c1) c2) c3) c4) (time_time c5) = ''closed''
      \<and> redis_hgetall (record_failure b (record_failure b (record_failure b (record_failure b
            (record_failure b r c1) c2) c3) c4) c5) (circuit_key b) (time_time c5)
          = \<lparr>failures = Some 5, state = Some ''open'', opened_at = Some (time_time c5)\<rparr>)
   \<and> (state (redis_hgetall r (circuit_key b) (time_time c)) = Some ''open''
      \<and> opened_at (redis_hgetall r (circuit_key b) (time_time c)) = Some t0
      \<and> time_time c - t0 > 300
    \<longrightarrow> fst (check_circuit_breaker b r c) = Inr ()
      \<and> redis_hgetall (snd (check_circuit_breaker b r c)) (circuit_key b) (time_time c)
          = (redis_hgetall r (circuit_key b) (time_time c))\<lparr>state := Some ''half-open''\<rparr>)
   \<and> (state (redis_hgetall r (circuit_key b) (time_time c)) = Some ''open''
      \<and> opened_at (redis_hgetall r (circuit_key b) (time_time c)) = Some t0
      \<and> time_time c - t0 \<le> 300
    \<longrightarrow> check_circuit_breaker b r c = (Inl CircuitOpenError, r))
   \<and> redis_hgetall (record_success b r) (circuit_key b) t = empty_hash
   \<and> circuit_state b (record_success b r) t = ''closed''
   \<and> failure_count b (record_success b r) t = 0"
proof -
  have p1: "redis_hgetall r (circuit_key b) (time_time c1) = empty_hash
      \<and> time_time c2 \<le> time_time c1 + 600 \<and> time_time c3 \<le> time_time c2 + 600
      \<and> time_time c4 \<le> time_time c3 + 600 \<and> time_time c5 \<le> time_time c4 + 600
    \<longrightarrow> circuit_state b (record_failure b (record_failure b (record_failure b
            (record_failure b r c1) c2) c3) c4) (time_time c5) = ''closed''
      \<and> redis_hgetall (record_failure b (record_failure b (record_failure b (record_failure b
            (record_failure b r c1) c2) c3) c4) c5) (circuit_key b) (time_time c5)
          = \<lparr>failures = Some 5, state = Some ''open'', opened_at = Some (time_time c5)\<rparr>"
    by (simp add: circuit_state_def five_failures)
  have p2: "state (redis_hgetall r (circuit_key b) (time_time c)) = Some ''open''
      \<and> opened_at (redis_hgetall r (circuit_key b) (time_time c)) = Some t0
      \<and> time_time c - t0 > 300
    \<longrightarrow> fst (check_circuit_breaker b r c) = Inr ()
      \<and> redis_hgetall (snd (check_circuit_breaker b r c)) (circuit_key b) (time_time c)
          = (redis_hgetall r (circuit_key b) (time_time c))\<lparr>state := Some ''half-open''\<rparr>"
    by (simp add: check_circuit_breaker_open hgetall_hset_same)
  have p3: "state (redis_hgetall r (circuit_key b) (time_time c)) = Some ''open''
      \<and> opened_at (redis_hgetall r (circuit_key b) (time_time c)) = Some t0
      \<and> time_time c - t0 \<le> 300
    \<longrightarrow> check_circuit_breaker b r c = (Inl CircuitOpenError, r)"
    by (simp add: check_circuit_breaker_open)
  have p4: "redis_hgetall (record_success b r) (circuit_key b) t = empty_hash
   \<and> circuit_state b (record_success b r) t = ''closed''
   \<and> failure_count b (record_success b r) t = 0"
    by (simp add: circuit_state_def failure_count_def hgetall_record_success empty_hash_def)
  from p1 p2 p3 p4 show ?thesis by blast
qed

theorem circuit_breaker_state_machine_witness:
  "redis_hgetall (record_failure ex_enforcer (record_failure ex_enforcer (record_failure ex_enforcer
      (record_failure ex_enforcer (record_failure ex_enforcer empty_redis (ex_clock 0)) (ex_clock 100))
      (ex_clock 200)) (ex_clock 300)) (ex_clock 400)) (circuit_key ex_enforcer) 400
     = \<lparr>failures = Some 5, state = Some ''open'', opened_at = Some 400\<rparr>
   \<and> fst (check_circuit_breaker ex_enforcer
        (ex_circuit \<lparr>failures = Some 5, state = Some ''open'', opened_at = Some 1000\<rparr> (Some 1600))
        (ex_clock 1301)) = Inr ()
   \<and> circuit_state ex_enforcer (snd (check_circuit_breaker ex_enforcer
        (ex_circuit \<lparr>failures = Some 5, state = Some ''open'', opened_at = Some 1000\<rparr> (Some 1600))
        (ex_clock 1301))) 1301 = ''half-open''
   \<and> fst (check_circuit_breaker ex_enforcer
        (ex_circuit \<lparr>failures = Some 5, state = Some ''open'', opened_at = Some 1000\<rparr> (Some 1600))
        (ex_clock 1299)) = Inl CircuitOpenError
   \<and> circuit_state ex_enforcer (record_success ex_enforcer
        (ex_circuit \<lparr>failures = Some 5, state = Some ''half-open'', opened_at = Some 1000\<rparr> (Some 1600)))
        1302 = ''closed''"
  using circuit_breaker_state_machine [of empty_redis ex_enforcer "ex_clock 0" "ex_clock 100"
      "ex_clock 200" "ex_clock 300" "ex_clock 400"]
    circuit_breaker_state_machine [of
      "ex_circuit \<lparr>failures = Some 5, state = Some ''open'', opened_at = Some 1000\<rparr> (Some 1600)"
      ex_enforcer _ _ _ _ _ "ex_clock 1301" 1000]
    circuit_breaker_state_machine [of
      "ex_circuit \<lparr>failures = Some 5, state = Some ''open'', opened_at = Some 1000\<rparr> (Some 1600)"
      ex_enforcer _ _ _ _ _ "ex_clock 1299" 1000]
    circuit_breaker_state_machine [of
      "ex_circuit \<lparr>failures = Some 5, state = Some ''half-open'', opened_at = Some 1000\<rparr> (Some 1600)"
      ex_enforcer _ _ _ _ _ _ _ 1302]
  by (simp add: ex_keys ex_circuit_hgetall empty_redis_hgetall unexpired_def circuit_state_def)

text \<open>
  The claim as stated fails: a check made exactly 300 seconds after \<open>opened_at\<close> is
  refused and the state stays open; a half-open circuit lets every check through, not one
  (the check leaves the store unchanged, so the next check passes too); and five failures
  700 seconds apart leave the circuit closed, each finding the key expired.
\<close>

theorem circuit_breaker_counterexample:
  "check_circuit_breaker ex_enforcer
      (ex_circuit \<lparr>failures = Some 5, state = Some ''open'', opened_at = Some 1000\<rparr> (Some 1600))
      (ex_clock 1300)
     = (Inl CircuitOpenError,
        ex_circuit \<lparr>failures = Some 5, state = Some ''open'', opened_at = Some 1000\<rparr> (Some 1600))
   \<and> check_circuit_breaker ex_enforcer
      (ex_circuit \<lparr>failures = Some 5, state = Some ''half-open'', opened_at = Some 1000\<rparr> (Some 1600))
      (ex_clock 1302)
     = (Inr (),
        ex_circuit \<lparr>failures = Some 5, state = Some ''half-open'', opened_at = Some 1000\<rparr> (Some 1600))
   \<and> check_circuit_breaker ex_enforcer
      (ex_circuit \<lparr>failures = Some 5, state = Some ''half-open'', opened_at = Some 1000\<rparr> (Some 1600))
      (ex_clock 1303)
     = (Inr (),
        ex_circuit \<lparr>failures = Some 5, state = Some ''half-open'', opened_at = Some 1000\<rparr> (Some 1600))
   \<and> circuit_state ex_enforcer
        (record_failure ex_enforcer (record_failure ex_enforcer (record_failure ex_enforcer
          (record_failure ex_enforcer (record_failure ex_enforcer empty_redis (ex_clock 0)) (ex_clock 700))
          (ex_clock 1400)) (ex_clock 2100)) (ex_clock 2800)) 2800 = ''closed''"
proof -
  have a: "check_circuit_breaker ex_enforcer
      (ex_circuit \<lparr>failures = Some 5, state = Some ''open'', opened_at = Some 1000\<rparr> (Some 1600))
      (ex_clock 1300)
     = (Inl CircuitOpenError,
        ex_circuit \<lparr>failures = Some 5, state = Some ''open'', opened_at = Some 1000\<rparr> (Some 1600))"
    by (simp add: check_circuit_breaker_def Let_def ex_keys ex_circuit_hgetall unexpired_def
        empty_hash_def CIRCUIT_TIMEOUT_def)
  have b: "check_circuit_breaker ex_enforcer
      (ex_circuit \<lparr>failures = Some 5, state = Some ''half-open'', opened_at = Some 1000\<rparr> (Some 1600))
      (ex_clock t)
     = (Inr (),
        ex_circuit \<lparr>failures = Some 5, state = Some ''half-open'', opened_at = Some 1000\<rparr> (Some 1600))"
    for t
    by (simp add: check_circuit_breaker_def Let_def ex_keys ex_circuit_hgetall unexpired_def
        empty_hash_def CIRCUIT_TIMEOUT_def)
  have c: "circuit_state ex_enforcer
        (record_failure ex_enforcer (record_failure ex_enforcer (record_failure ex_enforcer
          (record_failure ex_enforcer (record_failure ex_enforcer empty_redis (ex_clock 0)) (ex_clock 700))
          (ex_clock 1400)) (ex_clock 2100)) (ex_clock 2800)) 2800 = ''closed''"
    by (simp add: circuit_state_def hgetall_record_failure Let_def ex_keys(5) empty_hash_def)
  from a b [of 1302] b [of 1303] c show ?thesis by blast
qed

text \<open>
  Claim C9, as the code has it. \<open>record_success\<close> deletes the tenant's circuit key in
  every state: afterwards the state reads closed and the failure count 0, and every other key
  is as before. It leaves the store unchanged exactly when nothing is stored under the circuit
  key.
\<close>

theorem record_success_deletes_circuit:
  "hashes (record_success b r) = (hashes r)(circuit_key b := None)
   \<and> strings (record_success b r) = (strings r)(circuit_key b := None)
   \<and> circuit_state b (record_success b r) t = ''closed''
   \<and> failure_count b (record_success b r) t = 0
   \<and> (record_success b r = r \<longleftrightarrow> hashes r (circuit_key b) = None \<and> strings r (circuit_key b) = None)"
proof -
  have e: "record_success b r = r \<longleftrightarrow> hashes r (circuit_key b) = None \<and> strings r (circuit_key b) = None"
    by (cases r) (auto simp add: record_success_def redis_delete_def fun_upd_idem_iff)
  have "circuit_state b (record_success b r) t = ''closed''"
    and "failure_count b (record_success b r) t = 0"
    by (simp_all add: circuit_state_def failure_count_def hgetall_record_success empty_hash_def)
  with e show ?thesis
    by (simp add: record_success_def redis_delete_def)
qed

text \<open>
  The claim as stated fails: in the closed state with three recorded failures,
  \<open>record_success\<close> changes the store and the failure count drops to 0.
\<close>

theorem record_success_noop_counterexample:
  "circuit_state ex_enforcer (ex_circuit \<lparr>failures = Some 3, state = None, opened_at = None\<rparr> None) 0 = ''closed''
   \<and> failure_count ex_enforcer (ex_circuit \<lparr>failures = Some 3, state = None, opened_at = None\<rparr> None) 0 = 3
   \<and> failure_count ex_enforcer (record_success ex_enforcer
        (ex_circuit \<lparr>failures = Some 3, state = None, opened_at = None\<rparr> None)) 0 = 0
   \<and> record_success ex_enforcer (ex_circuit \<lparr>failures = Some 3, state = None, opened_at = None\<rparr> None)
       \<noteq> ex_circuit \<lparr>failures = Some 3, state = None, opened_at = None\<rparr> None"
proof -
  let ?r = "ex_circuit \<lparr>failures = Some 3, state = None, opened_at = None\<rparr> None"
  have "hashes (record_success ex_enforcer ?r) ''circuit:t1'' = None"
    by (simp add: record_success_def redis_delete_def ex_keys)
  moreover have "hashes ?r ''circuit:t1'' \<noteq> None"
    by (simp add: ex_circuit_def)
  ultimately have ne: "record_success ex_enforcer ?r \<noteq> ?r"
    by metis
  have a: "circuit_state ex_enforcer ?r 0 = ''closed''"
    and b: "failure_count ex_enforcer ?r 0 = 3"
    by (simp_all add: circuit_state_def failure_count_def ex_keys ex_circuit_hgetall unexpired_def)
  have c: "failure_count ex_enforcer (record_success ex_enforcer ?r) 0 = 0"
    by (simp add: failure_count_def hgetall_record_success empty_hash_def)
  from a b c ne show ?thesis by blast
qed

section \<open>The router\<close>

lemma call_local_model_cases:
  "call_local_model len_split st rt r c prompt task local cloud =
     (if local_model_enabled st \<and> local \<noteq> LocalFailed
      then (case local of
              LocalReplied text tp \<Rightarrow>
                (Inr \<lparr>content = text, model = ''local_7b'',
                       tokens = (case tp of Some n \<Rightarrow> n | None \<Rightarrow> int (len_split text)),
                       cost = 0, input_tokens = None, output_tokens = None,
                       task_type = None, template_id = None\<rparr>,
                 case budget rt of
                   None \<Rightarrow> r
                 | Some b \<Rightarrow> add_daily_tokens b r c
                      (case tp of Some n \<Rightarrow> n | None \<Rightarrow> int (len_split text)))
            | LocalFailed \<Rightarrow> (Inl APIError, r))
      else if str_truthy (anthropic_key rt)
      then call_claude len_split rt r c prompt task [] ''claude-haiku-4-5-20251001'' 256 cloud
      else (Inr \<lparr>content = default_content, model = ''fallback_default'', tokens = 0, cost = 0,
                  input_tokens = None, output_tokens = None,
                  task_type = None, template_id = None\<rparr>, r))"
  by (cases local) (simp_all add: call_local_model_def local_model_fallback_def Let_def)

lemma call_claude_returns_iff:
  "(\<exists>res. fst (call_claude len_split rt r c prompt task sp mdl mt cloud) = Inr res) \<longleftrightarrow>
     str_truthy (anthropic_key rt)
     \<and> (case budget rt of
          None \<Rightarrow> True
        | Some b \<Rightarrow> check_daily_tokens b r c
             (py_int (real (len_split prompt) * (13 / 10) + of_int mt)) = Inr ())
     \<and> cloud \<noteq> CloudFailed"
  by (cases cloud; cases "budget rt")
     (auto simp add: call_claude_def Let_def split: sum.splits)

lemma call_claude_store:
  assumes "budget rt = Some b"
  shows "snd (call_claude len_split rt r c prompt task sp mdl mt cloud) =
     (if str_truthy (anthropic_key rt)
         \<and> check_daily_tokens b r c (py_int (real (len_split prompt) * (13 / 10) + of_int mt)) = Inr ()
      then (case cloud of
              CloudFailed \<Rightarrow> record_failure b r c
            | CloudReplied i j text \<Rightarrow> record_success b (add_daily_tokens b r c (i + j)))
      else r)"
  by (cases cloud;
      cases "check_daily_tokens b r c (py_int (real (len_split prompt) * (13 / 10) + of_int mt))")
     (auto simp add: call_claude_def Let_def assms)

lemma hashes_redis_incrby: "hashes (redis_incrby r k n t) = hashes r"
  by (simp add: redis_incrby_def split: option.splits prod.splits)

lemma hashes_redis_expire_other: "k' \<noteq> k \<Longrightarrow> hashes (redis_expire r k secs t) k' = hashes r k'"
  by (simp add: hashes_redis_expire split: option.splits prod.splits)

lemma day_key_neq_circuit_key: "circuit_key b' \<noteq> day_key b metric c"
  by (simp add: day_key_def circuit_key_def)

lemma hashes_add_daily_tokens:
  "hashes (add_daily_tokens b r c n) (circuit_key b') = hashes r (circuit_key b')"
  by (simp add: add_daily_tokens_def Let_def hashes_redis_expire_other
      day_key_neq_circuit_key hashes_redis_incrby)

text \<open>\<open>route\<close> once the prompt is resolved to \<open>p\<close> and the admission check has passed,
  leaving the store \<open>r1\<close>.\<close>

lemma route_admitted:
  assumes "(if str_truthy tmpl then rendered else Inr prompt) = Inr p"
    and "(case budget rt of None \<Rightarrow> (Inr (), r) | Some b \<Rightarrow> check_all b r c mt) = (Inr (), r1)"
  shows "route len_split st rt r c prompt task tmpl rendered sp mt local cloud =
     (case (if task \<in> LOCAL_TASKS
            then call_local_model len_split st rt r1 c p task local cloud
            else call_claude len_split rt r1 c p task sp ''claude-sonnet-4-20250514'' mt cloud) of
        (Inl e, r2) \<Rightarrow> (Inl e, r2)
      | (Inr res, r2) \<Rightarrow> (Inr (res\<lparr>task_type := Some task, template_id := tmpl\<rparr>), r2))"
  using assms by (simp add: route_def split: prod.splits sum.splits)

lemma route_refused:
  assumes "(if str_truthy tmpl then rendered else Inr prompt) = Inr p"
    and "(case budget rt of None \<Rightarrow> (Inr (), r) | Some b \<Rightarrow> check_all b r c mt) = (Inl e, r1)"
  shows "route len_split st rt r c prompt task tmpl rendered sp mt local cloud = (Inl e, r1)"
  using assms by (simp add: route_def split: prod.splits sum.splits)

lemma route_unresolved:
  assumes "(if str_truthy tmpl then rendered else Inr prompt) = Inl e"
  shows "route len_split st rt r c prompt task tmpl rendered sp mt local cloud = (Inl e, r)"
  using assms by (simp add: route_def split: prod.splits sum.splits)

lemma fst_case_result:
  "fst (case x of (Inl e, r2) \<Rightarrow> (Inl e, r2) | (Inr res, r2) \<Rightarrow> (Inr (f res), r2))
     = (case fst x of Inl e \<Rightarrow> Inl e | Inr res \<Rightarrow> Inr (f res))"
  by (cases x) (simp split: sum.splits)

lemma snd_case_result:
  "snd (case x of (Inl e, r2) \<Rightarrow> (Inl e, r2) | (Inr res, r2) \<Rightarrow> (Inr (f res), r2)) = snd x"
  by (cases x) (simp split: sum.splits)

lemma ex_router_simps:
  "budget (ex_router k) = Some ex_enforcer"
  "anthropic_key (ex_router k) = k"
  by (simp_all add: ex_router_def)

lemma empty_redis_get_or_0: "get_or_0 empty_redis k t = 0"
  by (simp add: get_or_0_def redis_get_def empty_redis_def)

lemma empty_redis_check_all: "check_all ex_enforcer empty_redis (ex_clock t) 1024 = (Inr (), empty_redis)"
  by (simp add: check_all_unfold check_circuit_breaker_def Let_def empty_redis_hgetall
      empty_redis_get_or_0) (simp add: ex_enforcer_def)

lemma ascii_words_example: "ascii_words ''ticket text'' = 2"
  by (simp add: ascii_words_def ascii_space_def)

lemma ex_py_int: "py_int (real (ascii_words ''ticket text'') * (13 / 10) + of_int 256) = 258"
proof -
  have "\<lfloor>(1293 :: real) / 5\<rfloor> = 258" by linarith
  then show ?thesis by (simp add: ascii_words_example py_int_def)
qed

lemma ex_check_tokens: "check_daily_tokens ex_enforcer empty_redis (ex_clock 0) 258 = Inr ()"
  by (simp add: check_daily_tokens_def Let_def empty_redis_get_or_0 ex_enforcer_def)

lemma ex_classify_failed:
  "route ascii_words ex_settings (ex_router (Some ''sk-key'')) empty_redis (ex_clock 0) ''ticket text''
      ''classify'' None (Inr []) [] 1024 LocalFailed CloudFailed
   = (Inl APIError, record_failure ex_enforcer empty_redis (ex_clock 0))"
proof -
  have t: "''classify'' \<in> LOCAL_TASKS"
    by (simp add: LOCAL_TASKS_def)
  have k: "str_truthy (Some ''sk-key'')"
    by (simp add: str_truthy_def)
  have p: "(if str_truthy None then Inr [] else Inr ''ticket text'') = (Inr ''ticket text'' :: error + string)"
    by (simp add: str_truthy_def)
  have a: "(case budget (ex_router (Some ''sk-key'')) of None \<Rightarrow> (Inr (), empty_redis)
            | Some b \<Rightarrow> check_all b empty_redis (ex_clock 0) 1024) = (Inr (), empty_redis)"
    by (simp add: ex_router_simps empty_redis_check_all)
  have "call_claude ascii_words (ex_router (Some ''sk-key'')) empty_redis (ex_clock 0) ''ticket text''
      ''classify'' [] ''claude-haiku-4-5-20251001'' 256 CloudFailed
      = (Inl APIError, record_failure ex_enforcer empty_redis (ex_clock 0))"
    unfolding call_claude_def Let_def ex_router_simps ex_py_int
    by (simp add: k ex_check_tokens)
  then show ?thesis
    by (simp add: route_admitted [OF p a] t call_local_model_cases ex_router_simps k)
qed

text \<open>
  Claim C3, as the code has it. For a LOCAL-routed task, an answer of the local backend is
  returned as it is. When the local backend fails or is disabled and no cloud credential is
  resolvable, the call returns the static default payload and raises nothing. When a credential
  is resolvable, the call is the cloud call with the reduced budget (the haiku model, 256
  tokens), and it returns exactly when that call does: when the daily token check passes and
  the cloud backend answers. The routed call for a LOCAL task, with or without a prompt
  template, once its prompt is resolved and admission has passed, is the local call on the
  resolved prompt and the store admission left, tagged with the task type and the template;
  it returns a result exactly when the local backend answers, or no credential is resolvable,
  or the reduced cloud call passes its token check and the cloud backend answers.
\<close>

theorem local_task_fallback_chain:
  "(local_model_enabled st \<and> local = LocalReplied answer tp
      \<longrightarrow> (\<exists>res. fst (call_local_model len_split st rt r c prompt task local cloud) = Inr res
              \<and> model res = ''local_7b'' \<and> content res = answer))
   \<and> (\<not> (local_model_enabled st \<and> local \<noteq> LocalFailed) \<and> \<not> str_truthy (anthropic_key rt)
      \<longrightarrow> call_local_model len_split st rt r c prompt task local cloud =
            (Inr \<lparr>content = default_content, model = ''fallback_default'', tokens = 0, cost = 0,
                   input_tokens = None, output_tokens = None,
                   task_type = None, template_id = None\<rparr>, r))
   \<and> (\<not> (local_model_enabled st \<and> local \<noteq> LocalFailed) \<and> str_truthy (anthropic_key rt)
      \<longrightarrow> call_local_model len_split st rt r c prompt task local cloud =
            call_claude len_split rt r c prompt task [] ''claude-haiku-4-5-20251001'' 256 cloud)
   \<and> ((\<exists>res. fst (call_claude len_split rt r c prompt task [] ''claude-haiku-4-5-20251001'' 256 cloud) = Inr res)
        \<longleftrightarrow> str_truthy (anthropic_key rt)
          \<and> (case budget rt of
               None \<Rightarrow> True
             | Some b \<Rightarrow> check_daily_tokens b r c
                  (py_int (real (len_split prompt) * (13 / 10) + of_int 256)) = Inr ())
          \<and> cloud \<noteq> CloudFailed)
   \<and> (task \<in> LOCAL_TASKS
        \<and> (if str_truthy tmpl then rendered else Inr prompt) = Inr p
        \<and> (case budget rt of None \<Rightarrow> (Inr (), r) | Some b \<Rightarrow> check_all b r c mt) = (Inr (), r1)
      \<longrightarrow> fst (route len_split st rt r c prompt task tmpl rendered sp mt local cloud)
            = (case fst (call_local_model len_split st rt r1 c p task local cloud) of
                 Inl e \<Rightarrow> Inl e
               | Inr res \<Rightarrow> Inr (res\<lparr>task_type := Some task, template_id := tmpl\<rparr>))
          \<and> ((\<exists>res. fst (route len_split st rt r c prompt task tmpl rendered sp mt local cloud) = Inr res)
              \<longleftrightarrow> local_model_enabled st \<and> local \<noteq> LocalFailed
                \<or> \<not> str_truthy (anthropic_key rt)
                \<or> (case budget rt of
                      None \<Rightarrow> True
                    | Some b \<Rightarrow> check_daily_tokens b r1 c
                         (py_int (real (len_split p) * (13 / 10) + of_int 256)) = Inr ())
                  \<and> cloud \<noteq> CloudFailed))"
proof -
  have p1: "local_model_enabled st \<and> local = LocalReplied answer tp
      \<longrightarrow> (\<exists>res. fst (call_local_model len_split st rt r c prompt task local cloud) = Inr res
              \<and> model res = ''local_7b'' \<and> content res = answer)"
    by (simp add: call_local_model_cases)
  have p2: "\<not> (local_model_enabled st \<and> local \<noteq> LocalFailed) \<and> \<not> str_truthy (anthropic_key rt)
      \<longrightarrow> call_local_model len_split st rt r c prompt task local cloud =
            (Inr \<lparr>content = default_content, model = ''fallback_default'', tokens = 0, cost = 0,
                   input_tokens = None, output_tokens = None,
                   task_type = None, template_id = None\<rparr>, r)"
    by (simp add: call_local_model_cases)
  have p3: "\<not> (local_model_enabled st \<and> local \<noteq> LocalFailed) \<and> str_truthy (anthropic_key rt)
      \<longrightarrow> call_local_model len_split st rt r c prompt task local cloud =
            call_claude len_split rt r c prompt task [] ''claude-haiku-4-5-20251001'' 256 cloud"
    by (simp add: call_local_model_cases)
  note p4 = call_claude_returns_iff [of len_split rt r c prompt task "[]" "''claude-haiku-4-5-20251001''" 256 cloud]
  have local_iff: "(\<exists>res. fst (call_local_model len_split st rt r1 c p task local cloud) = Inr res)
      \<longleftrightarrow> local_model_enabled st \<and> local \<noteq> LocalFailed
        \<or> \<not> str_truthy (anthropic_key rt)
        \<or> (case budget rt of
              None \<Rightarrow> True
            | Some b \<Rightarrow> check_daily_tokens b r1 c
                 (py_int (real (len_split p) * (13 / 10) + of_int 256)) = Inr ())
          \<and> cloud \<noteq> CloudFailed"
  proof (cases "local_model_enabled st \<and> local \<noteq> LocalFailed")
    case True
    then show ?thesis by (cases local) (simp_all add: call_local_model_cases)
  next
    case False
    note nl = this
    show ?thesis
    proof (cases "str_truthy (anthropic_key rt)")
      case True
      with nl show ?thesis
        using call_claude_returns_iff [of len_split rt r1 c p task "[]" "''claude-haiku-4-5-20251001''" 256 cloud]
        by (auto simp add: call_local_model_cases)
    next
      case False
      with nl show ?thesis by (simp add: call_local_model_cases)
    qed
  qed
  have p5: "task \<in> LOCAL_TASKS
        \<and> (if str_truthy tmpl then rendered else Inr prompt) = Inr p
        \<and> (case budget rt of None \<Rightarrow> (Inr (), r) | Some b \<Rightarrow> check_all b r c mt) = (Inr (), r1)
      \<longrightarrow> fst (route len_split st rt r c prompt task tmpl rendered sp mt local cloud)
            = (case fst (call_local_model len_split st rt r1 c p task local cloud) of
                 Inl e \<Rightarrow> Inl e
               | Inr res \<Rightarrow> Inr (res\<lparr>task_type := Some task, template_id := tmpl\<rparr>))
          \<and> ((\<exists>res. fst (route len_split st rt r c prompt task tmpl rendered sp mt local cloud) = Inr res)
              \<longleftrightarrow> local_model_enabled st \<and> local \<noteq> LocalFailed
                \<or> \<not> str_truthy (anthropic_key rt)
                \<or> (case budget rt of
                      None \<Rightarrow> True
                    | Some b \<Rightarrow> check_daily_tokens b r1 c
                         (py_int (real (len_split p) * (13 / 10) + of_int 256)) = Inr ())
                  \<and> cloud \<noteq> CloudFailed)"
  proof (intro impI, elim conjE)
    assume t: "task \<in> LOCAL_TASKS"
      and res: "(if str_truthy tmpl then rendered else Inr prompt) = Inr p"
      and adm: "(case budget rt of None \<Rightarrow> (Inr (), r) | Some b \<Rightarrow> check_all b r c mt) = (Inr (), r1)"
    have eq: "fst (route len_split st rt r c prompt task tmpl rendered sp mt local cloud)
            = (case fst (call_local_model len_split st rt r1 c p task local cloud) of
                 Inl e \<Rightarrow> Inl e
               | Inr res \<Rightarrow> Inr (res\<lparr>task_type := Some task, template_id := tmpl\<rparr>))"
      by (simp add: route_admitted [OF res adm] t fst_case_result)
    have "(\<exists>res. fst (route len_split st rt r c prompt task tmpl rendered sp mt local cloud) = Inr res)
       \<longleftrightarrow> (\<exists>res. fst (call_local_model len_split st rt r1 c p task local cloud) = Inr res)"
      unfolding eq by (cases "fst (call_local_model len_split st rt r1 c p task local cloud)") simp_all
    with eq local_iff
    show "fst (route len_split st rt r c prompt task tmpl rendered sp mt local cloud)
            = (case fst (call_local_model len_split st rt r1 c p task local cloud) of
                 Inl e \<Rightarrow> Inl e
               | Inr res \<Rightarrow> Inr (res\<lparr>task_type := Some task, template_id := tmpl\<rparr>))
          \<and> ((\<exists>res. fst (route len_split st rt r c prompt task tmpl rendered sp mt local cloud) = Inr res)
              \<longleftrightarrow> local_model_enabled st \<and> local \<noteq> LocalFailed
                \<or> \<not> str_truthy (anthropic_key rt)
                \<or> (case budget rt of
                      None \<Rightarrow> True
                    | Some b \<Rightarrow> check_daily_tokens b r1 c
                         (py_int (real (len_split p) * (13 / 10) + of_int 256)) = Inr ())
                  \<and> cloud \<noteq> CloudFailed)"
      by simp
  qed
  from p1 p2 p3 p4 p5 show ?thesis by blast
qed

theorem local_task_fallback_chain_witness:
  "(\<exists>res. fst (call_local_model ascii_words ex_settings (ex_router None) empty_redis (ex_clock 0) ''ticket text''
        ''classify'' (LocalReplied ''{}'' (Some 2)) CloudFailed) = Inr res
          \<and> model res = ''local_7b'' \<and> content res = ''{}'')
   \<and> call_local_model ascii_words ex_settings (ex_router None) empty_redis (ex_clock 0) ''ticket text''
        ''classify'' LocalFailed CloudFailed =
            (Inr \<lparr>content = default_content, model = ''fallback_default'', tokens = 0, cost = 0,
                   input_tokens = None, output_tokens = None,
                   task_type = None, template_id = None\<rparr>, empty_redis)
   \<and> call_local_model ascii_words ex_settings (ex_router (Some ''sk-key'')) empty_redis (ex_clock 0) ''ticket text''
        ''classify'' LocalFailed (CloudReplied 10 5 ''{}'') =
      call_claude ascii_words (ex_router (Some ''sk-key'')) empty_redis (ex_clock 0) ''ticket text''
        ''classify'' [] ''claude-haiku-4-5-20251001'' 256 (CloudReplied 10 5 ''{}'')
   \<and> (\<exists>res. fst (route ascii_words ex_settings (ex_router None) empty_redis (ex_clock 0) []
        ''classify'' (Some ''support_classify_v1'') (Inr ''ticket text'') [] 1024
        LocalFailed CloudFailed) = Inr res)
   \<and> (\<exists>res. fst (route ascii_words ex_settings (ex_router (Some ''sk-key'')) empty_redis (ex_clock 0)
        ''ticket text'' ''classify'' None (Inr []) [] 1024
        LocalFailed (CloudReplied 10 5 ''{}'')) = Inr res)
   \<and> \<not> (\<exists>res. fst (route ascii_words ex_settings (ex_router (Some ''sk-key'')) empty_redis (ex_clock 0)
        ''ticket text'' ''classify'' None (Inr []) [] 1024
        LocalFailed CloudFailed) = Inr res)"
proof -
  have e: "py_int (real (ascii_words ''ticket text'') * 13 / 10 + 256) = 258"
    using ex_py_int by simp
  note t1 = local_task_fallback_chain [where st = ex_settings and local = "LocalReplied ''{}'' (Some 2)"
      and answer = "''{}''" and tp = "Some 2" and len_split = ascii_words
      and rt = "ex_router None" and r = empty_redis and c = "ex_clock 0"
      and prompt = "''ticket text''" and task = "''classify''" and cloud = CloudFailed]
  note t2 = local_task_fallback_chain [where st = ex_settings and local = LocalFailed
      and len_split = ascii_words
      and rt = "ex_router None" and r = empty_redis and c = "ex_clock 0"
      and prompt = "''ticket text''" and task = "''classify''" and cloud = CloudFailed]
  note t3 = local_task_fallback_chain [where st = ex_settings and local = LocalFailed
      and len_split = ascii_words
      and rt = "ex_router (Some ''sk-key'')" and r = empty_redis and c = "ex_clock 0"
      and prompt = "''ticket text''" and task = "''classify''" and cloud = "CloudReplied 10 5 ''{}''"]
  note t4 = local_task_fallback_chain [where st = ex_settings and local = LocalFailed
      and len_split = ascii_words
      and rt = "ex_router None" and r = empty_redis and c = "ex_clock 0"
      and prompt = "[]" and task = "''classify''" and cloud = CloudFailed
      and tmpl = "Some ''support_classify_v1''" and rendered = "Inr ''ticket text''"
      and p = "''ticket text''" and mt = 1024 and ?r1.0 = empty_redis and sp = "[]"]
  note t5 = local_task_fallback_chain [where st = ex_settings and local = LocalFailed
      and len_split = ascii_words
      and rt = "ex_router (Some ''sk-key'')" and r = empty_redis and c = "ex_clock 0"
      and prompt = "''ticket text''" and task = "''classify''" and cloud = "CloudReplied 10 5 ''{}''"
      and tmpl = None and rendered = "Inr []"
      and p = "''ticket text''" and mt = 1024 and ?r1.0 = empty_redis and sp = "[]"]
  note t6 = local_task_fallback_chain [where st = ex_settings and local = LocalFailed
      and len_split = ascii_words
      and rt = "ex_router (Some ''sk-key'')" and r = empty_redis and c = "ex_clock 0"
      and prompt = "''ticket text''" and task = "''classify''" and cloud = CloudFailed
      and tmpl = None and rendered = "Inr []"
      and p = "''ticket text''" and mt = 1024 and ?r1.0 = empty_redis and sp = "[]"]
  have a1: "\<exists>res. fst (call_local_model ascii_words ex_settings (ex_router None) empty_redis (ex_clock 0) ''ticket text''
        ''classify'' (LocalReplied ''{}'' (Some 2)) CloudFailed) = Inr res
          \<and> model res = ''local_7b'' \<and> content res = ''{}''"
    using t1 by (simp add: ex_settings_def)
  have a2: "call_local_model ascii_words ex_settings (ex_router None) empty_redis (ex_clock 0) ''ticket text''
        ''classify'' LocalFailed CloudFailed =
            (Inr \<lparr>content = default_content, model = ''fallback_default'', tokens = 0, cost = 0,
                   input_tokens = None, output_tokens = None,
                   task_type = None, template_id = None\<rparr>, empty_redis)"
    using t2 by (simp add: ex_router_simps str_truthy_def)
  have a3: "call_local_model ascii_words ex_settings (ex_router (Some ''sk-key'')) empty_redis (ex_clock 0) ''ticket text''
        ''classify'' LocalFailed (CloudReplied 10 5 ''{}'') =
      call_claude ascii_words (ex_router (Some ''sk-key'')) empty_redis (ex_clock 0) ''ticket text''
        ''classify'' [] ''claude-haiku-4-5-20251001'' 256 (CloudReplied 10 5 ''{}'')"
    using t3 by (simp add: ex_router_simps str_truthy_def)
  have a4: "\<exists>res. fst (route ascii_words ex_settings (ex_router None) empty_redis (ex_clock 0) []
        ''classify'' (Some ''support_classify_v1'') (Inr ''ticket text'') [] 1024
        LocalFailed CloudFailed) = Inr res"
    using t4 by (simp (no_asm_use) add: ex_router_simps str_truthy_def LOCAL_TASKS_def empty_redis_check_all) blast
  have a5: "\<exists>res. fst (route ascii_words ex_settings (ex_router (Some ''sk-key'')) empty_redis (ex_clock 0)
        ''ticket text'' ''classify'' None (Inr []) [] 1024
        LocalFailed (CloudReplied 10 5 ''{}'')) = Inr res"
    using t5 by (simp (no_asm_use) add: ex_router_simps str_truthy_def LOCAL_TASKS_def empty_redis_check_all
        e ex_check_tokens) blast
  have a6: "\<not> (\<exists>res. fst (route ascii_words ex_settings (ex_router (Some ''sk-key'')) empty_redis (ex_clock 0)
        ''ticket text'' ''classify'' None (Inr []) [] 1024
        LocalFailed CloudFailed) = Inr res)"
    using t6 by (simp (no_asm_use) add: ex_router_simps str_truthy_def LOCAL_TASKS_def empty_redis_check_all
        e ex_check_tokens) blast
  from a1 a2 a3 a4 a5 a6 show ?thesis by blast
qed

text \<open>
  The claim as stated fails: with a credential present, a failure of the local backend
  followed by a failure of the cloud fallback makes the routed call for \<open>classify\<close> raise.
\<close>

theorem local_task_counterexample:
  "''classify'' \<in> LOCAL_TASKS
   \<and> fst (route ascii_words ex_settings (ex_router (Some ''sk-key'')) empty_redis (ex_clock 0) ''ticket text''
        ''classify'' None (Inr []) [] 1024 LocalFailed CloudFailed) = Inl APIError"
  by (simp add: ex_classify_failed LOCAL_TASKS_def)

lemma check_circuit_breaker_store:
  "snd (check_circuit_breaker b r c) =
     (if circuit_state b r (time_time c) = ''open''
         \<and> time_time c - (case opened_at (redis_hgetall r (circuit_key b) (time_time c)) of
                             None \<Rightarrow> 0 | Some t \<Rightarrow> t) > 300
      then redis_hset r (circuit_key b) (\<lambda>h. h\<lparr>state := Some ''half-open''\<rparr>) (time_time c)
      else r)"
  by (simp add: check_circuit_breaker_def circuit_state_def Let_def CIRCUIT_TIMEOUT_def empty_hash_def)

lemma snd_check_all: "snd (check_all b r c n) = snd (check_circuit_breaker b r c)"
  by (simp add: check_all_unfold)

lemma ex_circuit_get_or_0: "get_or_0 (ex_circuit h d) k t = 0"
  by (simp add: get_or_0_def redis_get_def ex_circuit_def empty_redis_def)

lemma ex_enforcer_limits:
  "max_items_per_minute ex_enforcer = 5"
  "max_runs_per_day ex_enforcer = 100"
  "max_tokens_per_day ex_enforcer = 50000"
  by (simp_all add: ex_enforcer_def)

lemma ex_open_check_all:
  "check_all ex_enforcer
      (ex_circuit \<lparr>failures = Some 5, state = Some ''open'', opened_at = Some 1000\<rparr> None)
      (ex_clock 1301) 1024
   = (Inr (), redis_hset
        (ex_circuit \<lparr>failures = Some 5, state = Some ''open'', opened_at = Some 1000\<rparr> None)
        ''circuit:t1'' (\<lambda>h. h\<lparr>state := Some ''half-open''\<rparr>) 1301)"
proof -
  have s: "state (redis_hgetall
      (ex_circuit \<lparr>failures = Some 5, state = Some ''open'', opened_at = Some 1000\<rparr> None)
      (circuit_key ex_enforcer) (time_time (ex_clock 1301))) = Some ''open''"
    by (simp add: ex_keys ex_circuit_hgetall unexpired_def ex_clock_def)
  have cb: "check_circuit_breaker ex_enforcer
      (ex_circuit \<lparr>failures = Some 5, state = Some ''open'', opened_at = Some 1000\<rparr> None)
      (ex_clock 1301)
    = (Inr (), redis_hset
        (ex_circuit \<lparr>failures = Some 5, state = Some ''open'', opened_at = Some 1000\<rparr> None)
        ''circuit:t1'' (\<lambda>h. h\<lparr>state := Some ''half-open''\<rparr>) 1301)"
    unfolding check_circuit_breaker_open [OF s]
    by (simp add: ex_keys ex_circuit_hgetall unexpired_def ex_clock_def)
  show ?thesis
    by (simp add: check_all_unfold cb ex_circuit_get_or_0 ex_enforcer_limits)
qed

lemma ex_py_int_1024: "py_int (real (ascii_words ''ticket text'') * (13 / 10) + of_int 1024) = 1026"
proof -
  have "\<lfloor>(5133 :: real) / 5\<rfloor> = 1026" by linarith
  then show ?thesis by (simp add: ascii_words_example py_int_def)
qed

lemma ex_check_tokens_1024: "check_daily_tokens ex_enforcer empty_redis (ex_clock 0) 1026 = Inr ()"
  by (simp add: check_daily_tokens_def Let_def empty_redis_get_or_0 ex_enforcer_def)

text \<open>
  Claim C4, as the code has it. With a budget enforcer attached and the prompt resolved, the
  routed call writes the circuit state in two places only. Its admission check, for every
  task, moves an open circuit to half-open when more than 300 seconds have passed since it
  opened, and writes nothing else. After admission, \<open>record_failure\<close> and
  \<open>record_success\<close> are called by \<open>call_claude\<close> alone, and by every \<open>call_claude\<close>
  that gets past the credential and token checks: \<open>record_failure\<close> when the cloud backend
  fails, \<open>record_success\<close> when it answers, whether the call serves a CLOUD task or is the
  fallback of a LOCAL one. A routed LOCAL call leaves the circuit hash as admission left it
  when the local backend answers, and the whole store as admission left it when it falls
  back with no credential; with a credential, its fallback changes the store as the reduced
  cloud call does. A call refused by admission leaves the store as admission left it.
\<close>

theorem circuit_mutations_of_router:
  "budget rt = Some b \<and> (if str_truthy tmpl then rendered else Inr prompt) = Inr p \<longrightarrow>
     snd (check_all b r c mt) =
        (if circuit_state b r (time_time c) = ''open''
            \<and> time_time c - (case opened_at (redis_hgetall r (circuit_key b) (time_time c)) of
                                None \<Rightarrow> 0 | Some t \<Rightarrow> t) > 300
         then redis_hset r (circuit_key b) (\<lambda>h. h\<lparr>state := Some ''half-open''\<rparr>) (time_time c)
         else r)
   \<and> (fst (check_all b r c mt) \<noteq> Inr ()
        \<longrightarrow> snd (route len_split st rt r c prompt task tmpl rendered sp mt local cloud)
             = snd (check_all b r c mt))
   \<and> (fst (check_all b r c mt) = Inr () \<and> task \<in> LOCAL_TASKS
       \<and> local_model_enabled st \<and> local \<noteq> LocalFailed
        \<longrightarrow> hashes (snd (route len_split st rt r c prompt task tmpl rendered sp mt local cloud))
               (circuit_key b)
             = hashes (snd (check_all b r c mt)) (circuit_key b))
   \<and> (fst (check_all b r c mt) = Inr () \<and> task \<in> LOCAL_TASKS
       \<and> \<not> (local_model_enabled st \<and> local \<noteq> LocalFailed) \<and> \<not> str_truthy (anthropic_key rt)
        \<longrightarrow> snd (route len_split st rt r c prompt task tmpl rendered sp mt local cloud)
             = snd (check_all b r c mt))
   \<and> (fst (check_all b r c mt) = Inr () \<and> task \<in> LOCAL_TASKS
       \<and> \<not> (local_model_enabled st \<and> local \<noteq> LocalFailed) \<and> str_truthy (anthropic_key rt)
        \<longrightarrow> snd (route len_split st rt r c prompt task tmpl rendered sp mt local cloud)
             = snd (call_claude len_split rt (snd (check_all b r c mt)) c p task []
                      ''claude-haiku-4-5-20251001'' 256 cloud))
   \<and> (fst (check_all b r c mt) = Inr () \<and> task \<notin> LOCAL_TASKS
        \<longrightarrow> snd (route len_split st rt r c prompt task tmpl rendered sp mt local cloud)
             = snd (call_claude len_split rt (snd (check_all b r c mt)) c p task sp
                      ''claude-sonnet-4-20250514'' mt cloud))
   \<and> (str_truthy (anthropic_key rt)
       \<and> check_daily_tokens b r' c (py_int (real (len_split q) * (13 / 10) + of_int n)) = Inr ()
        \<longrightarrow> snd (call_claude len_split rt r' c q task sp' mdl n cloud)
             = (case cloud of
                  CloudFailed \<Rightarrow> record_failure b r' c
                | CloudReplied i j answer \<Rightarrow> record_success b (add_daily_tokens b r' c (i + j))))
   \<and> (\<not> (str_truthy (anthropic_key rt)
       \<and> check_daily_tokens b r' c (py_int (real (len_split q) * (13 / 10) + of_int n)) = Inr ())
        \<longrightarrow> snd (call_claude len_split rt r' c q task sp' mdl n cloud) = r')"
proof (intro impI, elim conjE)
  assume bud: "budget rt = Some b"
    and res: "(if str_truthy tmpl then rendered else Inr prompt) = Inr p"
  define r1 where "r1 = snd (check_all b r c mt)"
  define rte where "rte = route len_split st rt r c prompt task tmpl rendered sp mt local cloud"
  have p0: "r1 =
        (if circuit_state b r (time_time c) = ''open''
            \<and> time_time c - (case opened_at (redis_hgetall r (circuit_key b) (time_time c)) of
                                None \<Rightarrow> 0 | Some t \<Rightarrow> t) > 300
         then redis_hset r (circuit_key b) (\<lambda>h. h\<lparr>state := Some ''half-open''\<rparr>) (time_time c)
         else r)"
    unfolding r1_def snd_check_all by (rule check_circuit_breaker_store)
  have refused: "snd rte = r1" if "fst (check_all b r c mt) \<noteq> Inr ()"
  proof -
    from that obtain e where "fst (check_all b r c mt) = Inl e"
      by (cases "fst (check_all b r c mt)") auto
    then have "(case budget rt of None \<Rightarrow> (Inr (), r) | Some b \<Rightarrow> check_all b r c mt) = (Inl e, r1)"
      by (simp add: bud r1_def prod_eq_iff)
    from route_refused [OF res this] show ?thesis
      by (simp add: rte_def)
  qed
  have admitted: "snd rte =
       snd (if task \<in> LOCAL_TASKS
            then call_local_model len_split st rt r1 c p task local cloud
            else call_claude len_split rt r1 c p task sp ''claude-sonnet-4-20250514'' mt cloud)"
    if "fst (check_all b r c mt) = Inr ()"
  proof -
    from that
    have "(case budget rt of None \<Rightarrow> (Inr (), r) | Some b \<Rightarrow> check_all b r c mt) = (Inr (), r1)"
      by (simp add: bud r1_def prod_eq_iff)
    from route_admitted [OF res this] show ?thesis
      unfolding rte_def by (simp only: snd_case_result)
  qed
  have p1: "fst (check_all b r c mt) \<noteq> Inr () \<longrightarrow> snd rte = r1"
    using refused by blast
  have p2: "fst (check_all b r c mt) = Inr () \<and> task \<in> LOCAL_TASKS
       \<and> local_model_enabled st \<and> local \<noteq> LocalFailed
        \<longrightarrow> hashes (snd rte) (circuit_key b) = hashes r1 (circuit_key b)"
    by (cases local) (auto simp add: admitted call_local_model_cases bud hashes_add_daily_tokens)
  have p3: "fst (check_all b r c mt) = Inr () \<and> task \<in> LOCAL_TASKS
       \<and> \<not> (local_model_enabled st \<and> local \<noteq> LocalFailed) \<and> \<not> str_truthy (anthropic_key rt)
        \<longrightarrow> snd rte = r1"
    by (auto simp add: admitted call_local_model_cases)
  have p4: "fst (check_all b r c mt) = Inr () \<and> task \<in> LOCAL_TASKS
       \<and> \<not> (local_model_enabled st \<and> local \<noteq> LocalFailed) \<and> str_truthy (anthropic_key rt)
        \<longrightarrow> snd rte = snd (call_claude len_split rt r1 c p task []
                      ''claude-haiku-4-5-20251001'' 256 cloud)"
    by (auto simp add: admitted call_local_model_cases)
  have p5: "fst (check_all b r c mt) = Inr () \<and> task \<notin> LOCAL_TASKS
        \<longrightarrow> snd rte = snd (call_claude len_split rt r1 c p task sp
                      ''claude-sonnet-4-20250514'' mt cloud)"
    by (auto simp add: admitted)
  have p6: "str_truthy (anthropic_key rt)
       \<and> check_daily_tokens b r' c (py_int (real (len_split q) * (13 / 10) + of_int n)) = Inr ()
        \<longrightarrow> snd (call_claude len_split rt r' c q task sp' mdl n cloud)
             = (case cloud of
                  CloudFailed \<Rightarrow> record_failure b r' c
                | CloudReplied i j answer \<Rightarrow> record_success b (add_daily_tokens b r' c (i + j)))"
    by (simp add: call_claude_store [OF bud])
  have p7: "\<not> (str_truthy (anthropic_key rt)
       \<and> check_daily_tokens b r' c (py_int (real (len_split q) * (13 / 10) + of_int n)) = Inr ())
        \<longrightarrow> snd (call_claude len_split rt r' c q task sp' mdl n cloud) = r'"
    by (simp add: call_claude_store [OF bud])
  from p0 p1 p2 p3 p4 p5 p6 p7
  show "snd (check_all b r c mt) =
        (if circuit_state b r (time_time c) = ''open''
            \<and> time_time c - (case opened_at (redis_hgetall r (circuit_key b) (time_time c)) of
                                None \<Rightarrow> 0 | Some t \<Rightarrow> t) > 300
         then redis_hset r (circuit_key b) (\<lambda>h. h\<lparr>state := Some ''half-open''\<rparr>) (time_time c)
         else r)
   \<and> (fst (check_all b r c mt) \<noteq> Inr ()
        \<longrightarrow> snd (route len_split st rt r c prompt task tmpl rendered sp mt local cloud)
             = snd (check_all b r c mt))
   \<and> (fst (check_all b r c mt) = Inr () \<and> task \<in> LOCAL_TASKS
       \<and> local_model_enabled st \<and> local \<noteq> LocalFailed
        \<longrightarrow> hashes (snd (route len_split st rt r c prompt task tmpl rendered sp mt local cloud))
               (circuit_key b)
             = hashes (snd (check_all b r c mt)) (circuit_key b))
   \<and> (fst (check_all b r c mt) = Inr () \<and> task \<in> LOCAL_TASKS
       \<and> \<not> (local_model_enabled st \<and> local \<noteq> LocalFailed) \<and> \<not> str_truthy (anthropic_key rt)
        \<longrightarrow> snd (route len_split st rt r c prompt task tmpl rendered sp mt local cloud)
             = snd (check_all b r c mt))
   \<and> (fst (check_all b r c mt) = Inr () \<and> task \<in> LOCAL_TASKS
       \<and> \<not> (local_model_enabled st \<and> local \<noteq> LocalFailed) \<and> str_truthy (anthropic_key rt)
        \<longrightarrow> snd (route len_split st rt r c prompt task tmpl rendered sp mt local cloud)
             = snd (call_claude len_split rt (snd (check_all b r c mt)) c p task []
                      ''claude-haiku-4-5-20251001'' 256 cloud))
   \<and> (fst (check_all b r c mt) = Inr () \<and> task \<notin> LOCAL_TASKS
        \<longrightarrow> snd (route len_split st rt r c prompt task tmpl rendered sp mt local cloud)
             = snd (call_claude len_split rt (snd (check_all b r c mt)) c p task sp
                      ''claude-sonnet-4-20250514'' mt cloud))
   \<and> (str_truthy (anthropic_key rt)
       \<and> check_daily_tokens b r' c (py_int (real (len_split q) * (13 / 10) + of_int n)) = Inr ()
        \<longrightarrow> snd (call_claude len_split rt r' c q task sp' mdl n cloud)
             = (case cloud of
                  CloudFailed \<Rightarrow> record_failure b r' c
                | CloudReplied i j answer \<Rightarrow> record_success b (add_daily_tokens b r' c (i + j))))
   \<and> (\<not> (str_truthy (anthropic_key rt)
       \<and> check_daily_tokens b r' c (py_int (real (len_split q) * (13 / 10) + of_int n)) = Inr ())
        \<longrightarrow> snd (call_claude len_split rt r' c q task sp' mdl n cloud) = r')"
    unfolding r1_def rte_def by blast
qed

theorem circuit_mutations_of_router_witness:
  "redis_hgetall (snd (route ascii_words ex_settings (ex_router (Some ''sk-key''))
        (ex_circuit \<lparr>failures = Some 5, state = Some ''open'', opened_at = Some 1000\<rparr> None)
        (ex_clock 1301) ''ticket text'' ''classify'' None (Inr []) [] 1024
        (LocalReplied ''{}'' (Some 2)) CloudFailed)) ''circuit:t1'' 1301
     = \<lparr>failures = Some 5, state = Some ''half-open'', opened_at = Some 1000\<rparr>
   \<and> snd (route ascii_words ex_settings (ex_router None) empty_redis (ex_clock 0)
        ''ticket text'' ''classify'' None (Inr []) [] 1024 LocalFailed CloudFailed) = empty_redis
   \<and> snd (route ascii_words ex_settings (ex_router (Some ''sk-key'')) empty_redis (ex_clock 0)
        ''ticket text'' ''classify'' None (Inr []) [] 1024 LocalFailed CloudFailed)
     = snd (call_claude ascii_words (ex_router (Some ''sk-key'')) empty_redis (ex_clock 0)
        ''ticket text'' ''classify'' [] ''claude-haiku-4-5-20251001'' 256 CloudFailed)
   \<and> snd (route ascii_words ex_settings (ex_router (Some ''sk-key'')) empty_redis (ex_clock 0)
        ''ticket text'' ''draft_reply'' None (Inr []) [] 1024 LocalFailed CloudFailed)
     = record_failure ex_enforcer empty_redis (ex_clock 0)
   \<and> snd (call_claude ascii_words (ex_router None) empty_redis (ex_clock 0)
        ''ticket text'' ''draft_reply'' [] ''claude-sonnet-4-20250514'' 1024 CloudFailed)
     = empty_redis"
proof -
  let ?ro = "ex_circuit \<lparr>failures = Some 5, state = Some ''open'', opened_at = Some 1000\<rparr> None"
  have bud: "budget (ex_router k) = Some ex_enforcer" for k
    by (simp add: ex_router_simps)
  have res: "(if str_truthy None then Inr [] else Inr ''ticket text'') = (Inr ''ticket text'' :: error + string)"
    by (simp add: str_truthy_def)
  have adm_open: "fst (check_all ex_enforcer ?ro (ex_clock 1301) 1024) = Inr ()"
    by (simp add: ex_open_check_all)
  have adm: "fst (check_all ex_enforcer empty_redis (ex_clock 0) 1024) = Inr ()"
    by (simp add: empty_redis_check_all)
  have lt: "''classify'' \<in> LOCAL_TASKS"
    by (simp add: LOCAL_TASKS_def)
  have ct: "''draft_reply'' \<notin> LOCAL_TASKS"
    by (simp add: LOCAL_TASKS_def)
  have en: "local_model_enabled ex_settings"
    by (simp add: ex_settings_def)
  have lr: "LocalReplied ''{}'' (Some 2) \<noteq> LocalFailed"
    by simp
  have lf: "\<not> (local_model_enabled ex_settings \<and> LocalFailed \<noteq> LocalFailed)"
    by simp
  have key: "str_truthy (anthropic_key (ex_router (Some ''sk-key'')))"
    by (simp add: ex_router_simps str_truthy_def)
  have nokey: "\<not> str_truthy (anthropic_key (ex_router None))"
    by (simp add: ex_router_simps str_truthy_def)
  have tok: "check_daily_tokens ex_enforcer empty_redis (ex_clock 0)
      (py_int (real (ascii_words ''ticket text'') * (13 / 10) + of_int 1024)) = Inr ()"
    by (simp only: ex_py_int_1024 ex_check_tokens_1024)
  note t1 = circuit_mutations_of_router [where rt = "ex_router (Some ''sk-key'')" and b = ex_enforcer
      and st = ex_settings and local = "LocalReplied ''{}'' (Some 2)" and len_split = ascii_words
      and r = ?ro and c = "ex_clock 1301" and prompt = "''ticket text''" and task = "''classify''"
      and tmpl = None and rendered = "Inr []" and p = "''ticket text''"
      and cloud = CloudFailed and mt = 1024 and sp = "[]"
      and r' = empty_redis and q = "''ticket text''" and n = 1024 and sp' = "[]"
      and mdl = "''claude-sonnet-4-20250514''"]
  note t2 = circuit_mutations_of_router [where rt = "ex_router None" and b = ex_enforcer
      and st = ex_settings and local = LocalFailed and len_split = ascii_words
      and r = empty_redis and c = "ex_clock 0" and prompt = "''ticket text''" and task = "''classify''"
      and tmpl = None and rendered = "Inr []" and p = "''ticket text''"
      and cloud = CloudFailed and mt = 1024 and sp = "[]"
      and r' = empty_redis and q = "''ticket text''" and n = 1024 and sp' = "[]"
      and mdl = "''claude-sonnet-4-20250514''"]
  note t3 = circuit_mutations_of_router [where rt = "ex_router (Some ''sk-key'')" and b = ex_enforcer
      and st = ex_settings and local = LocalFailed and len_split = ascii_words
      and r = empty_redis and c = "ex_clock 0" and prompt = "''ticket text''" and task = "''classify''"
      and tmpl = None and rendered = "Inr []" and p = "''ticket text''"
      and cloud = CloudFailed and mt = 1024 and sp = "[]"
      and r' = empty_redis and q = "''ticket text''" and n = 1024 and sp' = "[]"
      and mdl = "''claude-sonnet-4-20250514''"]
  note t4 = circuit_mutations_of_router [where rt = "ex_router (Some ''sk-key'')" and b = ex_enforcer
      and st = ex_settings and local = LocalFailed and len_split = ascii_words
      and r = empty_redis and c = "ex_clock 0" and prompt = "''ticket text''" and task = "''draft_reply''"
      and tmpl = None and rendered = "Inr []" and p = "''ticket text''"
      and cloud = CloudFailed and mt = 1024 and sp = "[]"
      and r' = empty_redis and q = "''ticket text''" and n = 1024 and sp' = "[]"
      and mdl = "''claude-sonnet-4-20250514''"]
  note t5 = circuit_mutations_of_router [where rt = "ex_router None" and b = ex_enforcer
      and st = ex_settings and local = LocalFailed and len_split = ascii_words
      and r = empty_redis and c = "ex_clock 0" and prompt = "''ticket text''" and task = "''draft_reply''"
      and tmpl = None and rendered = "Inr []" and p = "''ticket text''"
      and cloud = CloudFailed and mt = 1024 and sp = "[]"
      and r' = empty_redis and q = "''ticket text''" and n = 1024 and sp' = "[]"
      and mdl = "''claude-sonnet-4-20250514''"]
  from t1 bud res adm_open lt en lr
  have "hashes (snd (route ascii_words ex_settings (ex_router (Some ''sk-key'')) ?ro
        (ex_clock 1301) ''ticket text'' ''classify'' None (Inr []) [] 1024
        (LocalReplied ''{}'' (Some 2)) CloudFailed)) (circuit_key ex_enforcer)
     = hashes (snd (check_all ex_enforcer ?ro (ex_clock 1301) 1024)) (circuit_key ex_enforcer)"
    by blast
  then have "redis_hgetall (snd (route ascii_words ex_settings (ex_router (Some ''sk-key'')) ?ro
        (ex_clock 1301) ''ticket text'' ''classify'' None (Inr []) [] 1024
        (LocalReplied ''{}'' (Some 2)) CloudFailed)) ''circuit:t1'' 1301
     = redis_hgetall (redis_hset ?ro ''circuit:t1'' (\<lambda>h. h\<lparr>state := Some ''half-open''\<rparr>) 1301)
         ''circuit:t1'' 1301"
    by (simp add: redis_hgetall_def ex_open_check_all ex_keys)
  then have a1: "redis_hgetall (snd (route ascii_words ex_settings (ex_router (Some ''sk-key'')) ?ro
        (ex_clock 1301) ''ticket text'' ''classify'' None (Inr []) [] 1024
        (LocalReplied ''{}'' (Some 2)) CloudFailed)) ''circuit:t1'' 1301
     = \<lparr>failures = Some 5, state = Some ''half-open'', opened_at = Some 1000\<rparr>"
    by (simp add: hgetall_hset_same ex_circuit_hgetall unexpired_def)
  from t2 bud res adm lt lf nokey
  have "snd (route ascii_words ex_settings (ex_router None) empty_redis (ex_clock 0)
        ''ticket text'' ''classify'' None (Inr []) [] 1024 LocalFailed CloudFailed)
      = snd (check_all ex_enforcer empty_redis (ex_clock 0) 1024)"
    by blast
  then have a2: "snd (route ascii_words ex_settings (ex_router None) empty_redis (ex_clock 0)
        ''ticket text'' ''classify'' None (Inr []) [] 1024 LocalFailed CloudFailed) = empty_redis"
    by (simp add: empty_redis_check_all)
  from t3 bud res adm lt lf key
  have "snd (route ascii_words ex_settings (ex_router (Some ''sk-key'')) empty_redis (ex_clock 0)
        ''ticket text'' ''classify'' None (Inr []) [] 1024 LocalFailed CloudFailed)
     = snd (call_claude ascii_words (ex_router (Some ''sk-key''))
        (snd (check_all ex_enforcer empty_redis (ex_clock 0) 1024)) (ex_clock 0)
        ''ticket text'' ''classify'' [] ''claude-haiku-4-5-20251001'' 256 CloudFailed)"
    by blast
  then have a3: "snd (route ascii_words ex_settings (ex_router (Some ''sk-key'')) empty_redis (ex_clock 0)
        ''ticket text'' ''classify'' None (Inr []) [] 1024 LocalFailed CloudFailed)
     = snd (call_claude ascii_words (ex_router (Some ''sk-key'')) empty_redis (ex_clock 0)
        ''ticket text'' ''classify'' [] ''claude-haiku-4-5-20251001'' 256 CloudFailed)"
    by (simp add: empty_redis_check_all)
  from t4 bud res adm ct
  have "snd (route ascii_words ex_settings (ex_router (Some ''sk-key'')) empty_redis (ex_clock 0)
        ''ticket text'' ''draft_reply'' None (Inr []) [] 1024 LocalFailed CloudFailed)
     = snd (call_claude ascii_words (ex_router (Some ''sk-key''))
        (snd (check_all ex_enforcer empty_redis (ex_clock 0) 1024)) (ex_clock 0)
        ''ticket text'' ''draft_reply'' [] ''claude-sonnet-4-20250514'' 1024 CloudFailed)"
    by blast
  moreover from t4 bud res key tok
  have "snd (call_claude ascii_words (ex_router (Some ''sk-key'')) empty_redis (ex_clock 0)
        ''ticket text'' ''draft_reply'' [] ''claude-sonnet-4-20250514'' 1024 CloudFailed)
     = (case CloudFailed of
          CloudFailed \<Rightarrow> record_failure ex_enforcer empty_redis (ex_clock 0)
        | CloudReplied i j answer \<Rightarrow>
            record_success ex_enforcer (add_daily_tokens ex_enforcer empty_redis (ex_clock 0) (i + j)))"
    by blast
  ultimately
  have a4: "snd (route ascii_words ex_settings (ex_router (Some ''sk-key'')) empty_redis (ex_clock 0)
        ''ticket text'' ''draft_reply'' None (Inr []) [] 1024 LocalFailed CloudFailed)
     = record_failure ex_enforcer empty_redis (ex_clock 0)"
    by (simp add: empty_redis_check_all)
  from t5 bud res nokey
  have a5: "snd (call_claude ascii_words (ex_router None) empty_redis (ex_clock 0)
        ''ticket text'' ''draft_reply'' [] ''claude-sonnet-4-20250514'' 1024 CloudFailed)
     = empty_redis"
    by blast
  from a1 a2 a3 a4 a5 show ?thesis by blast
qed

text \<open>
  The claim as stated fails: for the LOCAL task \<open>classify\<close>, a failed local call whose
  cloud fallback fails too raises the failure count of the circuit from 0 to 1.
\<close>

theorem local_fallback_circuit_counterexample:
  "''classify'' \<in> LOCAL_TASKS
   \<and> failure_count ex_enforcer empty_redis 0 = 0
   \<and> failure_count ex_enforcer
       (snd (route ascii_words ex_settings (ex_router (Some ''sk-key'')) empty_redis (ex_clock 0) ''ticket text''
          ''classify'' None (Inr []) [] 1024 LocalFailed CloudFailed)) 0 = 1"
  by (simp add: ex_classify_failed LOCAL_TASKS_def failure_count_def hgetall_record_failure
      empty_redis_hgetall Let_def ex_keys(5) empty_hash_def)

section \<open>The applying steps: properties\<close>




















end
